theory Spec2Isabelle
  imports Main "HOL-Library.Word"
begin

unbundle bit_operations_syntax

section \<open>Values of the JavaScript runtime\<close>

text \<open>
  The server (\<open>app/server.ts\<close>, which the sources carry as the second part of
  \<open>target/types/my_first_app.ts\<close>, after the program's IDL) works on Node.js buffers and
  JavaScript strings. A buffer is a list of bytes; a JavaScript string is a list of UTF-16 code units, so that \<open>data.length\<close>
  is \<open>length data\<close>. A public key is its 32 bytes (the Base58 text the server prints is a
  one-to-one rendering of them and is not modelled).
\<close>

type_synonym byte = "8 word"
type_synonym bytes = "8 word list"
type_synonym jsstring = "16 word list"
type_synonym pubkey = "8 word list"

definition js :: "string \<Rightarrow> jsstring" where
  \<comment> \<open>an ASCII literal as a JavaScript string\<close>
  "js s = map of_char s"

subsection \<open>Numbers\<close>

text \<open>
  A JavaScript \<open>Number\<close> is an IEEE double. Every Number the server computes with is an
  integer, so a Number is modelled by the integer it denotes. \<open>Number(b)\<close> of a BigInt
  \<open>b\<close>, and a numeric literal of the source, denote the nearest double, ties to the even
  significand of 53 bits. (The inputs here are below \<open>2 ^ 64\<close>, far from the overflow of
  the double's exponent.)
\<close>

function excess_bits :: "int \<Rightarrow> nat" where
  \<comment> \<open>how many low bits of a non-negative integer do not fit into 53 bits\<close>
  "excess_bits n = (if n < 2 ^ 53 then 0 else Suc (excess_bits (n div 2)))"
  by pat_completeness auto
termination
  by (relation "measure nat") auto

definition Number :: "int \<Rightarrow> int" where
  "Number x =
     (let n = \<bar>x\<bar>;
          e = excess_bits n;
          q = n div 2 ^ e;
          r = n mod 2 ^ e
      in if e = 0 then x
         else sgn x * ((if 2 ^ e < 2 * r \<or> (2 * r = 2 ^ e \<and> odd q) then q + 1 else q) * 2 ^ e))"

definition ToInt32 :: "int \<Rightarrow> 32 word" where
  \<comment> \<open>the operands of \<open>^\<close>, \<open>>>\<close> and \<open>&\<close> are first reduced modulo \<open>2 ^ 32\<close>\<close>
  "ToInt32 x = word_of_int x"

subsection \<open>Text in buffers\<close>

definition utf8_of_code_point :: "32 word \<Rightarrow> bytes" where
  "utf8_of_code_point cp =
     (if cp < 0x80 then [ucast cp]
      else if cp < 0x800 then
        [0xC0 OR ucast (drop_bit 6 cp), 0x80 OR ucast (cp AND 0x3F)]
      else if cp < 0x10000 then
        [0xE0 OR ucast (drop_bit 12 cp), 0x80 OR ucast (drop_bit 6 cp AND 0x3F),
         0x80 OR ucast (cp AND 0x3F)]
      else
        [0xF0 OR ucast (drop_bit 18 cp), 0x80 OR ucast (drop_bit 12 cp AND 0x3F),
         0x80 OR ucast (drop_bit 6 cp AND 0x3F), 0x80 OR ucast (cp AND 0x3F)])"

definition utf16_of_code_point :: "32 word \<Rightarrow> jsstring" where
  "utf16_of_code_point cp =
     (if cp < 0x10000 then [ucast cp]
      else [0xD800 + ucast (drop_bit 10 (cp - 0x10000)), 0xDC00 + ucast ((cp - 0x10000) AND 0x3FF)])"

definition lead_surrogate :: "16 word \<Rightarrow> bool" where
  "lead_surrogate c = (0xD800 \<le> c \<and> c \<le> 0xDBFF)"

definition trail_surrogate :: "16 word \<Rightarrow> bool" where
  "trail_surrogate c = (0xDC00 \<le> c \<and> c \<le> 0xDFFF)"

definition scalar_value :: "16 word \<Rightarrow> 32 word" where
  \<comment> \<open>a code unit on its own: an unpaired surrogate is written as U+FFFD\<close>
  "scalar_value c = (if lead_surrogate c \<or> trail_surrogate c then 0xFFFD else ucast c)"

fun Buffer_from_utf8 :: "jsstring \<Rightarrow> bytes" where
  \<comment> \<open>\<open>Buffer.from(s, "utf8")\<close>\<close>
  "Buffer_from_utf8 [] = []"
| "Buffer_from_utf8 [c] = utf8_of_code_point (scalar_value c)"
| "Buffer_from_utf8 (c # d # cs) =
     (if lead_surrogate c \<and> trail_surrogate d then
        utf8_of_code_point (0x10000 + push_bit 10 (ucast c - 0xD800) + (ucast d - 0xDC00))
          @ Buffer_from_utf8 cs
      else utf8_of_code_point (scalar_value c) @ Buffer_from_utf8 (d # cs))"

text \<open>
  \<open>buf.toString("utf8")\<close>: the UTF-8 decoder of the Encoding Standard. A byte that cannot
  continue the sequence under way ends it with one U+FFFD and is read again as the start of
  a new sequence; a sequence cut off by the end of the buffer gives one U+FFFD.
\<close>

record utf8_decoder =
  code_point :: "32 word"
  bytes_seen :: nat
  bytes_needed :: nat
  lower_boundary :: byte
  upper_boundary :: byte
  decoded :: jsstring

definition utf8_decoder_init :: utf8_decoder where
  "utf8_decoder_init =
     \<lparr>code_point = 0, bytes_seen = 0, bytes_needed = 0,
      lower_boundary = 0x80, upper_boundary = 0xBF, decoded = []\<rparr>"

definition utf8_decoder_reset :: "utf8_decoder \<Rightarrow> jsstring \<Rightarrow> utf8_decoder" where
  "utf8_decoder_reset s emitted = utf8_decoder_init\<lparr>decoded := decoded s @ emitted\<rparr>"

definition utf8_lead_byte :: "utf8_decoder \<Rightarrow> byte \<Rightarrow> utf8_decoder" where
  "utf8_lead_byte s b =
     (if b \<le> 0x7F then s\<lparr>decoded := decoded s @ [ucast b]\<rparr>
      else if 0xC2 \<le> b \<and> b \<le> 0xDF then
        s\<lparr>bytes_needed := 1, code_point := ucast (b AND 0x1F)\<rparr>
      else if 0xE0 \<le> b \<and> b \<le> 0xEF then
        s\<lparr>lower_boundary := (if b = 0xE0 then 0xA0 else 0x80),
          upper_boundary := (if b = 0xED then 0x9F else 0xBF),
          bytes_needed := 2, code_point := ucast (b AND 0xF)\<rparr>
      else if 0xF0 \<le> b \<and> b \<le> 0xF4 then
        s\<lparr>lower_boundary := (if b = 0xF0 then 0x90 else 0x80),
          upper_boundary := (if b = 0xF4 then 0x8F else 0xBF),
          bytes_needed := 3, code_point := ucast (b AND 0x7)\<rparr>
      else s\<lparr>decoded := decoded s @ [0xFFFD]\<rparr>)"

definition utf8_decoder_step :: "utf8_decoder \<Rightarrow> byte \<Rightarrow> utf8_decoder" where
  "utf8_decoder_step s b =
     (if bytes_needed s = 0 then utf8_lead_byte s b
      else if b < lower_boundary s \<or> upper_boundary s < b then
        utf8_lead_byte (utf8_decoder_reset s [0xFFFD]) b
      else
        (let cp = push_bit 6 (code_point s) OR ucast (b AND 0x3F);
             seen = bytes_seen s + 1
         in if seen = bytes_needed s then utf8_decoder_reset s (utf16_of_code_point cp)
            else s\<lparr>lower_boundary := 0x80, upper_boundary := 0xBF,
                   code_point := cp, bytes_seen := seen\<rparr>))"

definition toString_utf8 :: "bytes \<Rightarrow> jsstring" where
  "toString_utf8 bs =
     (let s = foldl utf8_decoder_step utf8_decoder_init bs
      in decoded s @ (if bytes_needed s = 0 then [] else [0xFFFD]))"

text \<open>\<open>buf.toString("hex")\<close>: two lower-case hexadecimal digits for each byte.\<close>

definition hex_digit :: "byte \<Rightarrow> 16 word" where
  "hex_digit n = (if n < 10 then 0x30 + ucast n else 0x57 + ucast n)"

definition toString_hex :: "bytes \<Rightarrow> jsstring" where
  "toString_hex bs = concat (map (\<lambda>b. [hex_digit (drop_bit 4 b), hex_digit (b AND 0xF)]) bs)"



text \<open>
  \<open>Buffer.from(s, "base64")\<close>: Node.js looks at the low byte of each UTF-16 code unit
  only (\<open>static_cast<uint8_t>\<close> in its decoder). It reads both the standard and the
  URL-safe alphabet, skips every other byte, stops at the first \<open>=\<close> and never throws.
  Each full group of four digits gives three bytes; two or three remaining digits give one
  or two bytes.
\<close>

definition unbase64 :: "byte \<Rightarrow> byte option" where
  "unbase64 c =
     (if 0x41 \<le> c \<and> c \<le> 0x5A then Some (c - 0x41)
      else if 0x61 \<le> c \<and> c \<le> 0x7A then Some (c - 0x61 + 26)
      else if 0x30 \<le> c \<and> c \<le> 0x39 then Some (c - 0x30 + 52)
      else if c = 0x2B \<or> c = 0x2D then Some 62
      else if c = 0x2F \<or> c = 0x5F then Some 63
      else None)"

fun base64_groups :: "byte list \<Rightarrow> bytes" where
  "base64_groups (a # b # c # d # rest) =
     [push_bit 2 a OR drop_bit 4 b, push_bit 4 b OR drop_bit 2 c, push_bit 6 c OR d]
       @ base64_groups rest"
| "base64_groups [a, b, c] = [push_bit 2 a OR drop_bit 4 b, push_bit 4 b OR drop_bit 2 c]"
| "base64_groups [a, b] = [push_bit 2 a OR drop_bit 4 b]"
| "base64_groups [a] = []"
| "base64_groups [] = []"

definition Buffer_from_base64 :: "jsstring \<Rightarrow> bytes" where
  "Buffer_from_base64 s =
     base64_groups
       (List.map_filter unbase64 (takeWhile (\<lambda>c. c \<noteq> 0x3D) (map ucast s :: bytes)))"

text \<open>
  Base64 as RFC 4648 defines it, in the encoding direction: three bytes give four digits
  of six bits each, taken from the alphabet \<open>A\<dots>Z a\<dots>z 0\<dots>9 + /\<close>; one or two
  remaining bytes give two or three digits, and the text is padded with \<open>=\<close> to a multiple
  of four. This is what a client of the server does to a string before it submits it.
\<close>

definition base64_digit :: "byte \<Rightarrow> 16 word" where
  "base64_digit n =
     (if n < 26 then 0x41 + ucast n
      else if n < 52 then 0x61 + ucast (n - 26)
      else if n < 62 then 0x30 + ucast (n - 52)
      else if n = 62 then 0x2B
      else 0x2F)"

fun sextets :: "bytes \<Rightarrow> bytes" where
  "sextets (a # b # c # rest) =
     [drop_bit 2 a, push_bit 4 (take_bit 2 a) OR drop_bit 4 b,
      push_bit 2 (take_bit 4 b) OR drop_bit 6 c, take_bit 6 c] @ sextets rest"
| "sextets [a, b] =
     [drop_bit 2 a, push_bit 4 (take_bit 2 a) OR drop_bit 4 b, push_bit 2 (take_bit 4 b)]"
| "sextets [a] = [drop_bit 2 a, push_bit 4 (take_bit 2 a)]"
| "sextets [] = []"

definition base64_encode :: "bytes \<Rightarrow> jsstring" where
  "base64_encode bs =
     map base64_digit (sextets bs) @ replicate ((3 - length bs mod 3) mod 3) 0x3D"

text \<open>
  \<open>decodeURIComponent(s)\<close> (ECMAScript, Decode with an empty reserved set): a \<open>%\<close> must be
  followed by two hexadecimal digits; an octet of \<open>0x80\<close> or more starts a UTF-8 sequence
  whose other octets are escaped as well, and the sequence must encode a code point.
  \<open>None\<close> is the \<open>URIError\<close> thrown otherwise.
\<close>

definition hex_value :: "16 word \<Rightarrow> byte option" where
  "hex_value c =
     (if 0x30 \<le> c \<and> c \<le> 0x39 then Some (ucast (c - 0x30))
      else if 0x41 \<le> c \<and> c \<le> 0x46 then Some (ucast (c - 0x41) + 10)
      else if 0x61 \<le> c \<and> c \<le> 0x66 then Some (ucast (c - 0x61) + 10)
      else None)"

definition percent_octet :: "jsstring \<Rightarrow> byte option" where
  "percent_octet cs =
     (case cs of
        p # h # l # _ \<Rightarrow>
          (if p = 0x25 then
             (case hex_value h of None \<Rightarrow> None
              | Some x \<Rightarrow> (case hex_value l of None \<Rightarrow> None | Some y \<Rightarrow> Some (push_bit 4 x OR y)))
           else None)
      | _ \<Rightarrow> None)"

definition utf8_sequence_length :: "byte \<Rightarrow> nat" where
  \<comment> \<open>the number of leading 1 bits of the first octet; 0 where no sequence starts so\<close>
  "utf8_sequence_length b =
     (if b AND 0xE0 = 0xC0 then 2 else if b AND 0xF0 = 0xE0 then 3
      else if b AND 0xF8 = 0xF0 then 4 else 0)"

definition continuation :: "byte \<Rightarrow> bool" where
  "continuation b = (0x80 \<le> b \<and> b \<le> 0xBF)"

fun utf8_code_point :: "bytes \<Rightarrow> 32 word option" where
  \<comment> \<open>the code point of one well-formed UTF-8 sequence of two to four octets\<close>
  "utf8_code_point [a, b] =
     (if 0xC2 \<le> a \<and> a \<le> 0xDF \<and> continuation b
      then Some (push_bit 6 (ucast (a AND 0x1F)) OR ucast (b AND 0x3F)) else None)"
| "utf8_code_point [a, b, c] =
     (if 0xE0 \<le> a \<and> a \<le> 0xEF
         \<and> (if a = 0xE0 then 0xA0 else 0x80) \<le> b \<and> b \<le> (if a = 0xED then 0x9F else 0xBF)
         \<and> continuation c
      then Some (push_bit 12 (ucast (a AND 0xF)) OR push_bit 6 (ucast (b AND 0x3F))
                 OR ucast (c AND 0x3F))
      else None)"
| "utf8_code_point [a, b, c, d] =
     (if 0xF0 \<le> a \<and> a \<le> 0xF4
         \<and> (if a = 0xF0 then 0x90 else 0x80) \<le> b \<and> b \<le> (if a = 0xF4 then 0x8F else 0xBF)
         \<and> continuation c \<and> continuation d
      then Some (push_bit 18 (ucast (a AND 0x7)) OR push_bit 12 (ucast (b AND 0x3F))
                 OR push_bit 6 (ucast (c AND 0x3F)) OR ucast (d AND 0x3F))
      else None)"
| "utf8_code_point _ = None"

function decodeURIComponent :: "jsstring \<Rightarrow> jsstring option" where
  "decodeURIComponent cs =
     (case cs of
        [] \<Rightarrow> Some []
      | c # rest \<Rightarrow>
          if c \<noteq> 0x25 then map_option ((#) c) (decodeURIComponent rest)
          else
            (case percent_octet cs of
               None \<Rightarrow> None
             | Some B \<Rightarrow>
                 if B < 0x80 then map_option ((#) (ucast B)) (decodeURIComponent (drop 3 cs))
                 else if utf8_sequence_length B = 0 then None
                 else
                   (case those (map (\<lambda>i. percent_octet (drop (3 * i) cs))
                                  [0..<utf8_sequence_length B]) of
                      None \<Rightarrow> None
                    | Some octets \<Rightarrow>
                        (case utf8_code_point octets of
                           None \<Rightarrow> None
                         | Some cp \<Rightarrow>
                             map_option ((@) (utf16_of_code_point cp))
                               (decodeURIComponent (drop (3 * utf8_sequence_length B) cs))))))"
  by pat_completeness auto
termination
  by (relation "measure length") auto

declare decodeURIComponent.simps [simp del]

subsection \<open>Reading a buffer\<close>

text \<open>
  \<open>buf.slice(start, end)\<close> with \<open>0 \<le> start \<le> end\<close> is cut at the end of the buffer.
  The \<open>read\<dots>LE\<close> functions throw a \<open>RangeError\<close> (here \<open>None\<close>) unless all their bytes
  lie inside the buffer.
\<close>

definition buffer_slice :: "bytes \<Rightarrow> nat \<Rightarrow> nat \<Rightarrow> bytes" where
  "buffer_slice buf start stop = take (stop - start) (drop start buf)"

definition little_endian :: "bytes \<Rightarrow> int" where
  "little_endian bs = foldr (\<lambda>b n. uint b + 256 * n) bs 0"

definition readUInt32LE :: "bytes \<Rightarrow> nat \<Rightarrow> nat option" where
  "readUInt32LE buf offset =
     (if offset + 4 \<le> length buf then Some (nat (little_endian (buffer_slice buf offset (offset + 4))))
      else None)"

definition readBigUInt64LE :: "bytes \<Rightarrow> nat \<Rightarrow> int option" where
  "readBigUInt64LE buf offset =
     (if offset + 8 \<le> length buf then Some (little_endian (buffer_slice buf offset (offset + 8)))
      else None)"

definition readBigInt64LE :: "bytes \<Rightarrow> nat \<Rightarrow> int option" where
  "readBigInt64LE buf offset =
     (if offset + 8 \<le> length buf
      then Some (sint (word_of_int (little_endian (buffer_slice buf offset (offset + 8))) :: 64 word))
      else None)"

definition PublicKey :: "bytes \<Rightarrow> pubkey" where
  \<comment> \<open>\<open>new PublicKey(buffer)\<close> of at most 32 bytes: a big-endian number, kept as 32 bytes\<close>
  "PublicKey bs = replicate (32 - length bs) 0 @ bs"

section \<open>The fingerprint\<close>

subsection \<open>The server's \<open>md5Hash\<close>\<close>

text \<open>
  \<^verbatim>\<open>
  function md5Hash(data: string): Buffer {
    const result = Buffer.alloc(16);
    for (let i = 0; i < 16; i++) { result[i] = i; }
    const FNV_PRIME = 0x100000001b3;
    let hash = 0xcbf29ce484222325;
    const bytes = Buffer.from(data, "utf8");
    for (const byte of bytes) {
      hash ^= byte;
      hash = Number((BigInt(hash) * BigInt(FNV_PRIME)) & BigInt("0xFFFFFFFFFFFFFFFF"));
      const idx = hash % 16;
      result[idx] = (result[idx] + byte) & 0xFF;
      result[(idx + 1) % 16] ^= (hash >> 8) & 0xFF;
      result[(idx + 3) % 16] ^= (hash >> 16) & 0xFF;
      result[(idx + 7) % 16] ^= (hash >> 24) & 0xFF;
    }
    return result;
  }
  \<close>
  \<open>hash\<close> is a Number. The literal \<open>0xcbf29ce484222325\<close> is read as the nearest double;
  \<open>hash ^= byte\<close> yields a signed 32-bit integer; the BigInt product is masked to 64 bits
  (\<open>&\<close> on BigInt is two's complement, hence \<open>mod 2 ^ 64\<close> also for a negative product) and
  converted back with \<open>Number\<close>. \<open>hash\<close> is then non-negative, so \<open>hash % 16\<close> is
  \<open>hash mod 16\<close>, below the length 16 of \<open>result\<close>.
\<close>

definition FNV_PRIME :: int where
  "FNV_PRIME = 0x100000001b3"

definition md5_round :: "int \<times> bytes \<Rightarrow> byte \<Rightarrow> int \<times> bytes" where
  "md5_round st byte =
     (let hash = fst st; result = snd st;
          hash = sint (ToInt32 hash XOR ucast byte);
          hash = Number ((hash * FNV_PRIME) mod 2 ^ 64);
          idx = nat (hash mod 16);
          result = result[idx := (result ! idx + byte) AND 0xFF];
          result = result[(idx + 1) mod 16 :=
            result ! ((idx + 1) mod 16) XOR ucast (signed_drop_bit 8 (ToInt32 hash) AND 0xFF)];
          result = result[(idx + 3) mod 16 :=
            result ! ((idx + 3) mod 16) XOR ucast (signed_drop_bit 16 (ToInt32 hash) AND 0xFF)];
          result = result[(idx + 7) mod 16 :=
            result ! ((idx + 7) mod 16) XOR ucast (signed_drop_bit 24 (ToInt32 hash) AND 0xFF)]
      in (hash, result))"

definition md5Hash :: "jsstring \<Rightarrow> bytes" where
  "md5Hash data =
     snd (foldl md5_round (Number 0xcbf29ce484222325, map of_nat [0..<16])
            (Buffer_from_utf8 data))"

subsection \<open>The fingerprint as the specification words it\<close>

text \<open>
  Section 4.1 of the specification: a buffer \<open>buf[i] = i\<close>, a 64-bit accumulator
  \<open>acc = 0xcbf29ce484222325\<close>, and for each input byte \<open>b\<close>: \<open>acc ^= b\<close>,
  \<open>acc = (acc * 0x100000001b3) mod 2^64\<close>, \<open>idx = acc mod 16\<close>,
  \<open>buf[idx] = (buf[idx] + b) mod 256\<close>, and bytes 1, 2, 3 of \<open>acc\<close> are XORed into
  \<open>buf[(idx+1) mod 16]\<close>, \<open>buf[(idx+3) mod 16]\<close>, \<open>buf[(idx+7) mod 16]\<close>.
\<close>

definition Fingerprint_round :: "64 word \<times> bytes \<Rightarrow> byte \<Rightarrow> 64 word \<times> bytes" where
  "Fingerprint_round st b =
     (let acc = fst st; buf = snd st;
          acc = acc XOR ucast b;
          acc = acc * 0x100000001b3;
          idx = unat (acc mod 16);
          buf = buf[idx := buf ! idx + b];
          buf = buf[(idx + 1) mod 16 := buf ! ((idx + 1) mod 16) XOR ucast (drop_bit 8 acc)];
          buf = buf[(idx + 3) mod 16 := buf ! ((idx + 3) mod 16) XOR ucast (drop_bit 16 acc)];
          buf = buf[(idx + 7) mod 16 := buf ! ((idx + 7) mod 16) XOR ucast (drop_bit 24 acc)]
      in (acc, buf))"

definition Fingerprint :: "bytes \<Rightarrow> bytes" where
  "Fingerprint bs = snd (foldl Fingerprint_round (0xcbf29ce484222325, map of_nat [0..<16]) bs)"

section \<open>The Ledger\<close>

text \<open>
  The server talks to a Solana program (\<open>programs/my-first-app\<close>, written in Rust) through
  \<open>program.methods.storeString(\<dots>).rpc()\<close>. The program's source is not part of the
  sources at hand: only its interface description (the IDL at the head of
  \<open>target/types/my_first_app.ts\<close>), its test suite and its caller are. The accounts of the
  chain are kept as an association list, in the order in which \<open>getProgramAccounts\<close>
  lists them.
\<close>

type_synonym accounts = "(pubkey \<times> bytes) list"

record StringRecord =
  original_string :: bytes
  fingerprint :: bytes
  created_at :: "64 word"
  owner :: pubkey
  cost :: "64 word"

datatype ledger_error = AlreadyExists | EmptyString | StringTooLong

definition discriminator :: bytes where
  \<comment> \<open>the discriminator of the account \<open>stringRecord\<close> in the IDL\<close>
  "discriminator = [72, 85, 57, 84, 139, 0, 181, 63]"

fun le_bytes :: "nat \<Rightarrow> int \<Rightarrow> bytes" where
  "le_bytes 0 n = []"
| "le_bytes (Suc k) n = word_of_int n # le_bytes k (n div 256)"

text \<open>
  Modelled from the spec: the encoder of a Record, which belongs to the Rust program.
  Section 4.3: a fixed little-endian layout without padding, of the 8-byte format
  discriminator, the \<open>uint32\<close> string length, the UTF-8 string, the 16-byte fingerprint,
  the \<open>int64\<close> creation time, the 32-byte owner and the \<open>uint64\<close> cost.
\<close>

definition encode :: "StringRecord \<Rightarrow> bytes" where
  "encode r =
     discriminator @ le_bytes 4 (int (length (original_string r))) @ original_string r
       @ fingerprint r @ le_bytes 8 (uint (created_at r)) @ owner r @ le_bytes 8 (uint (cost r))"

text \<open>
  Modelled from the spec: the Ledger's \<open>create_if_absent(address, bytes)\<close> of section 6,
  which answers \<open>AlreadyExists\<close> for an occupied address and stores the bytes otherwise.
\<close>

definition create_if_absent :: "accounts \<Rightarrow> pubkey \<Rightarrow> bytes \<Rightarrow> ledger_error + accounts" where
  "create_if_absent accs address bs =
     (case map_of accs address of
        Some _ \<Rightarrow> Inl AlreadyExists
      | None \<Rightarrow> Inr (accs @ [(address, bs)]))"

text \<open>
  Modelled from the spec: the program's instruction \<open>storeString\<close>, the Rust code behind
  \<open>program.methods.storeString(input).accounts({record, payer, \<dots>})\<close>. Sections 3, 6 and 7:
  a string of length 0 is rejected with \<open>EmptyString\<close> and one of more than 200 UTF-8 bytes
  with \<open>StringTooLong\<close>, both before the Ledger is written; otherwise the Record of the
  string, with \<open>fingerprint = Fingerprint(original_string)\<close>, the time of creation, the
  submitter and the fee, is created at the address if the address is free.
\<close>

definition storeString ::
  "accounts \<Rightarrow> pubkey \<Rightarrow> pubkey \<Rightarrow> 64 word \<Rightarrow> 64 word \<Rightarrow> bytes \<Rightarrow> ledger_error + accounts" where
  "storeString accs address submitter now paid input =
     (if input = [] then Inl EmptyString
      else if length input > 200 then Inl StringTooLong
      else create_if_absent accs address
             (encode \<lparr>original_string = input, fingerprint = Fingerprint input,
                      created_at = now, owner = submitter, cost = paid\<rparr>))"

text \<open>
  Modelled from the spec: the message of the error that \<open>.rpc()\<close> throws when the program
  fails. The program's own errors are named in the message (the program's tests look for
  \<open>"EmptyString"\<close> in it). An occupied address is refused by the System Program; the
  tests look for \<open>"custom program error: 0x0"\<close> in the message of that error.
\<close>

fun error_message :: "ledger_error \<Rightarrow> string" where
  "error_message AlreadyExists = ''custom program error: 0x0''"
| "error_message EmptyString = ''EmptyString''"
| "error_message StringTooLong = ''StringTooLong''"

section \<open>The server\<close>

text \<open>
  The state that the handlers of one server process share and act on: the accounts on the
  Ledger, the module-level set \<open>uploadedSignatures\<close>, and the number of requests sent to the
  Ledger's RPC endpoint so far, which makes "before any Ledger interaction" a statement about
  the state.
\<close>

record server =
  ledger :: accounts
  uploadedSignatures :: "jsstring set"
  rpc_calls :: nat

text \<open>
  What the outside decides at one store request: the key pair that
  \<open>anchor.web3.Keypair.generate()\<close> draws, the wallet that pays, the Ledger's clock and fee,
  and the identifier the Ledger gives the transaction.
\<close>

record store_env =
  generated :: pubkey
  payer :: pubkey
  clock :: "64 word"
  fee :: "64 word"
  txSignature :: jsstring

text \<open>
  The JSON body \<open>{success, code, message, data, error}\<close> of a response together with its HTTP
  status; the free texts \<open>message\<close> and \<open>error\<close> are left out, and so is \<open>costSol\<close>, a
  floating-point quotient of \<open>costLamports\<close>.
\<close>

record 'a ApiResponse =
  status :: nat
  success :: bool
  code :: nat
  data :: "'a option"

record StoreResult =
  signature :: jsstring
  recordAddress :: pubkey
  costLamports :: int
  transactionSignature :: jsstring
  timestamp :: int
  originalString :: jsstring

text \<open>The fields of \<open>QueryResult\<close> carry the prefix \<open>q_\<close>; all but \<open>exists\<close> are optional.\<close>

record QueryResult =
  exists :: bool
  q_recordAddress :: "pubkey option"
  q_signature :: "jsstring option"
  q_timestamp :: "int option"
  q_owner :: "pubkey option"
  q_costLamports :: "int option"
  q_originalString :: "jsstring option"

definition failure :: "nat \<Rightarrow> nat \<Rightarrow> 'a ApiResponse" where
  "failure http errorCode = \<lparr>status = http, success = False, code = errorCode, data = None\<rparr>"

definition ok :: "'a \<Rightarrow> 'a ApiResponse" where
  "ok result = \<lparr>status = 200, success = True, code = 0, data = Some result\<rparr>"

subsection \<open>Errors caught by the store handler\<close>

text \<open>
  \<^verbatim>\<open>
  let errorCode = 500;
  for (const [key, value] of Object.entries(ERROR_CODES)) {
    if (error.message?.includes(key)) { errorCode = value.code; ...; break; }
  }
  if (error.message?.includes("0x1")) { errorCode = ERROR_CODES.InsufficientFunds.code; ... }
  return res.status(errorCode === 500 ? 500 : 400).json(response);
  \<close>
\<close>

definition ERROR_CODES :: "(string \<times> nat) list" where
  "ERROR_CODES =
     [(''AlreadyExists'', 1001), (''EmptyString'', 1002), (''StringTooLong'', 1003),
      (''AccountNotFound'', 1004), (''InsufficientFunds'', 1005)]"

definition message_includes :: "string \<Rightarrow> string \<Rightarrow> bool" where
  "message_includes message key =
     list_ex (\<lambda>i. take (length key) (drop i message) = key) [0..<Suc (length message)]"

definition errorCode_of :: "string \<Rightarrow> nat" where
  "errorCode_of message =
     (let errorCode = (case find (\<lambda>entry. message_includes message (fst entry)) ERROR_CODES of
                         None \<Rightarrow> 500 | Some entry \<Rightarrow> snd entry)
      in if message_includes message ''0x1'' then 1005 else errorCode)"

definition store_catch :: "string \<Rightarrow> 'a ApiResponse" where
  "store_catch message =
     failure (if errorCode_of message = 500 then 500 else 400) (errorCode_of message)"

text \<open>
  The messages of the other errors the handlers can throw: the \<open>RangeError\<close> of a read
  outside the buffer, and the error thrown after five failed \<open>getAccountInfo\<close>. (The real
  texts also quote an offset or an address; none contains a key of \<open>ERROR_CODES\<close>.)
\<close>

definition out_of_range :: string where
  "out_of_range = ''The value of offset is out of range''"

definition account_missing :: string where
  "account_missing = ''Account does not exist''"

subsection \<open>Reading the fields of an account\<close>

text \<open>
  All three handlers read an account by hand: the string length at offset 8, the string,
  the 16 bytes of the signature, and then
  \<^verbatim>\<open>
  const timestamp = Number(accountData.readBigInt64LE(offset));      offset += 8;
  const owner = new anchor.web3.PublicKey(accountData.slice(offset, offset + 32)); offset += 32;
  const costLamports = Number(accountData.readBigUInt64LE(offset));
  \<close>
  A slice has at most 32 bytes, which \<open>PublicKey\<close> accepts; \<open>None\<close> is a \<open>RangeError\<close>.
\<close>

definition read_tail :: "bytes \<Rightarrow> nat \<Rightarrow> (int \<times> pubkey \<times> int) option" where
  "read_tail accountData offset =
     (case readBigInt64LE accountData offset of
        None \<Rightarrow> None
      | Some t \<Rightarrow>
          (case readBigUInt64LE accountData (offset + 8 + 32) of
             None \<Rightarrow> None
           | Some c \<Rightarrow>
               Some (Number t, PublicKey (buffer_slice accountData (offset + 8) (offset + 8 + 32)),
                     Number c)))"

subsection \<open>\<open>POST /api/store\<close>\<close>

text \<open>
  The value of \<open>req.body.data\<close>: a string, or anything else (\<open>undefined\<close>, \<open>null\<close>, a
  number, \<dots>). The handler checks the type and the length of \<open>data\<close>, decodes it as Base64
  to \<open>decodedData\<close>, computes and logs \<open>md5Hash(decodedData)\<close>, generates a key pair for
  the record's account, submits \<open>storeString(decodedData)\<close>, confirms the transaction, fetches
  the new account, reads its fields without any check and answers. The account is fetched
  up to five times until it is there; the Ledger does not change in between, so the first
  \<open>getAccountInfo\<close> finds it or all five fail and the handler throws. Every error thrown on
  the way is caught. \<open>rpc_calls\<close> counts the program call, the confirmation and each
  \<open>getAccountInfo\<close>.
\<close>

datatype body_data = NotAString | String jsstring

definition post_api_store ::
  "server \<Rightarrow> store_env \<Rightarrow> body_data \<Rightarrow> StoreResult ApiResponse \<times> server" where
  "post_api_store \<sigma> env body =
     (case body of
        NotAString \<Rightarrow> (failure 400 400, \<sigma>)
      | String input \<Rightarrow>
          if length input > 200 then (failure 400 1003, \<sigma>)
          else
            (let decodedData = toString_utf8 (Buffer_from_base64 input);
                 address = generated env;
                 \<sigma> = \<sigma>\<lparr>rpc_calls := rpc_calls \<sigma> + 1\<rparr>
             in case storeString (ledger \<sigma>) address (payer env) (clock env) (fee env)
                       (Buffer_from_utf8 decodedData) of
                  Inl e \<Rightarrow> (store_catch (error_message e), \<sigma>)
                | Inr accs \<Rightarrow>
                    (let \<sigma> = \<sigma>\<lparr>ledger := accs, rpc_calls := rpc_calls \<sigma> + 2\<rparr>
                     in case map_of accs address of
                          None \<Rightarrow>
                            (store_catch account_missing,
                             \<sigma>\<lparr>rpc_calls := rpc_calls \<sigma> + 4\<rparr>)
                        | Some accountData \<Rightarrow>
                            (case readUInt32LE accountData 8 of
                               None \<Rightarrow> (store_catch out_of_range, \<sigma>)
                             | Some strLen \<Rightarrow>
                                 (case read_tail accountData (12 + strLen + 16) of
                                    None \<Rightarrow> (store_catch out_of_range, \<sigma>)
                                  | Some (t, who, lamports) \<Rightarrow>
                                      (ok \<lparr>signature = toString_hex
                                             (buffer_slice accountData (12 + strLen) (12 + strLen + 16)),
                                           recordAddress = address,
                                           costLamports = lamports,
                                           transactionSignature = txSignature env,
                                           timestamp = t,
                                           originalString = decodedData\<rparr>, \<sigma>))))))"

subsection \<open>\<open>GET /api/query/:data\<close>\<close>

text \<open>
  The loop over the accounts that \<open>getProgramAccounts\<close> returned. An account that is too
  short, or whose string length is above 200 or reaches beyond the account, is passed over
  (\<open>continue\<close>). Otherwise the 16 bytes after the string are compared, as hexadecimal text,
  with the signature looked for; only on a match are the remaining fields read, and the
  response is sent from inside the loop. A read outside the buffer throws.
\<close>

datatype scan_result = Matched QueryResult | NoMatch | Threw

fun scan :: "accounts \<Rightarrow> jsstring \<Rightarrow> scan_result" where
  "scan [] signatureHex = NoMatch"
| "scan ((pubkey, accountData) # rest) signatureHex =
     (if length accountData < 8 + 4 + 16 + 8 + 32 + 8 then scan rest signatureHex
      else
        (case readUInt32LE accountData 8 of
           None \<Rightarrow> Threw
         | Some strLen \<Rightarrow>
             if strLen > 200 \<or> strLen + 12 > length accountData then scan rest signatureHex
             else if toString_hex (buffer_slice accountData (12 + strLen) (12 + strLen + 16))
                       = signatureHex
             then
               (case read_tail accountData (12 + strLen + 16) of
                  None \<Rightarrow> Threw
                | Some (t, who, lamports) \<Rightarrow>
                    Matched \<lparr>exists = True, q_recordAddress = Some pubkey,
                             q_signature = Some signatureHex, q_timestamp = Some t,
                             q_owner = Some who, q_costLamports = Some lamports,
                             q_originalString =
                               Some (toString_utf8 (buffer_slice accountData 12 (12 + strLen)))\<rparr>)
             else scan rest signatureHex))"

definition not_found :: "jsstring \<Rightarrow> jsstring \<Rightarrow> QueryResult" where
  "not_found queried signatureHex =
     \<lparr>exists = False, q_recordAddress = None, q_signature = Some signatureHex,
      q_timestamp = None, q_owner = None, q_costLamports = None,
      q_originalString = Some queried\<rparr>"

text \<open>
  The handler: \<open>req.params.data\<close> must not be empty; it is passed through
  \<open>decodeURIComponent\<close> (a \<open>URIError\<close> is caught and answered with 500) and hashed. If the
  hexadecimal signature is not in \<open>uploadedSignatures\<close> the answer is "not found" at once;
  otherwise the program's accounts are fetched and scanned.
\<close>

definition get_api_query :: "server \<Rightarrow> jsstring \<Rightarrow> QueryResult ApiResponse \<times> server" where
  "get_api_query \<sigma> input =
     (if input = [] then (failure 400 400, \<sigma>)
      else
        (case decodeURIComponent input of
           None \<Rightarrow> (failure 500 500, \<sigma>)
         | Some queried \<Rightarrow>
             (let signatureHex = toString_hex (md5Hash queried)
              in if signatureHex \<notin> uploadedSignatures \<sigma>
                 then (ok (not_found queried signatureHex), \<sigma>)
                 else
                   (let \<sigma> = \<sigma>\<lparr>rpc_calls := rpc_calls \<sigma> + 1\<rparr>
                    in case scan (ledger \<sigma>) signatureHex of
                         Matched result \<Rightarrow> (ok result, \<sigma>)
                       | NoMatch \<Rightarrow> (ok (not_found queried signatureHex), \<sigma>)
                       | Threw \<Rightarrow> (failure 500 500, \<sigma>)))))"

subsection \<open>\<open>GET /api/record/:address\<close>\<close>

text \<open>
  The path parameter: empty, a text that \<open>new PublicKey(address)\<close> rejects, or an address.
  The account found there is checked for its total length and for the length of its string,
  \<^verbatim>\<open>
  if (accountData.length < 8 + 4 + 16 + 8 + 32 + 8) { ... return res.status(400) ... }
  ...
  if (strLen > 1000 || strLen + offset > accountData.length - 16 - 8 - 32 - 8) {
    ... return res.status(400) ... }
  \<close>
  and then read.
\<close>

datatype address_param = NoAddress | InvalidAddress | Address pubkey

definition decode_account :: "pubkey \<Rightarrow> bytes \<Rightarrow> QueryResult ApiResponse" where
  "decode_account address accountData =
     (if length accountData < 8 + 4 + 16 + 8 + 32 + 8 then failure 400 400
      else
        (case readUInt32LE accountData 8 of
           None \<Rightarrow> failure 500 500
         | Some strLen \<Rightarrow>
             if strLen > 1000
                \<or> int strLen + 12 > int (length accountData) - 16 - 8 - 32 - 8
             then failure 400 400
             else
               (case read_tail accountData (12 + strLen + 16) of
                  None \<Rightarrow> failure 500 500
                | Some (t, who, lamports) \<Rightarrow>
                    ok \<lparr>exists = True, q_recordAddress = Some address,
                        q_signature = Some (toString_hex
                          (buffer_slice accountData (12 + strLen) (12 + strLen + 16))),
                        q_timestamp = Some t, q_owner = Some who,
                        q_costLamports = Some lamports,
                        q_originalString =
                          Some (toString_utf8 (buffer_slice accountData 12 (12 + strLen)))\<rparr>)))"

definition get_api_record :: "server \<Rightarrow> address_param \<Rightarrow> QueryResult ApiResponse \<times> server" where
  "get_api_record \<sigma> param =
     (case param of
        NoAddress \<Rightarrow> (failure 400 400, \<sigma>)
      | InvalidAddress \<Rightarrow> (failure 400 400, \<sigma>)
      | Address address \<Rightarrow>
          (let \<sigma> = \<sigma>\<lparr>rpc_calls := rpc_calls \<sigma> + 1\<rparr>
           in case map_of (ledger \<sigma>) address of
                None \<Rightarrow>
                  (ok \<lparr>exists = False, q_recordAddress = Some address,
                       q_signature = None, q_timestamp = None, q_owner = None,
                       q_costLamports = None, q_originalString = None\<rparr>, \<sigma>)
              | Some accountData \<Rightarrow> (decode_account address accountData, \<sigma>)))"

section \<open>The layout of a Record\<close>

text \<open>
  Section 4.3 of the specification lists what decoding a buffer checks, in this order: the
  total length is at least \<open>8+4+16+8+32+8\<close>; \<open>string_length \<le> 200\<close>; and
  \<open>8+4+string_length+16+8+32+8\<close> is at most the total length. \<open>valid_layout\<close> says that a
  buffer passes all three. \<open>stored_string\<close> and \<open>stored_signature\<close> are the string and the
  16 bytes after it, at the offsets of that layout, as the handlers read them.
\<close>

definition valid_layout :: "bytes \<Rightarrow> bool" where
  "valid_layout buf =
     (8 + 4 + 16 + 8 + 32 + 8 \<le> length buf
      \<and> (case readUInt32LE buf 8 of
            None \<Rightarrow> False
          | Some string_length \<Rightarrow>
              string_length \<le> 200 \<and> 8 + 4 + string_length + 16 + 8 + 32 + 8 \<le> length buf))"

definition stored_string :: "bytes \<Rightarrow> jsstring" where
  "stored_string buf =
     (case readUInt32LE buf 8 of
        None \<Rightarrow> []
      | Some strLen \<Rightarrow> toString_utf8 (buffer_slice buf 12 (12 + strLen)))"


section \<open>Runs of store requests\<close>

text \<open>
  The responses to a sequence of store requests served one after the other, and the
  addresses of the successful ones among them (a response carries \<open>data\<close> exactly when it
  reports success).
\<close>

fun serve_stores :: "server \<Rightarrow> (store_env \<times> body_data) list \<Rightarrow> StoreResult ApiResponse list" where
  "serve_stores \<sigma> [] = []"
| "serve_stores \<sigma> ((env, body) # requests) =
     fst (post_api_store \<sigma> env body)
       # serve_stores (snd (post_api_store \<sigma> env body)) requests"

definition stored_at :: "StoreResult ApiResponse list \<Rightarrow> pubkey list" where
  "stored_at responses = map recordAddress (List.map_filter data responses)"

section \<open>Sample requests\<close>

text \<open>
  A freshly started server in front of an empty Ledger, two store requests that differ in
  the generated key pair only, and the wallet that pays for them.
\<close>

definition fresh :: server where
  "fresh = \<lparr>ledger = [], uploadedSignatures = {}, rpc_calls = 0\<rparr>"

definition wallet :: pubkey where
  "wallet = replicate 32 7"

definition first_env :: store_env where
  "first_env = \<lparr>generated = replicate 32 1, payer = wallet, clock = 1700000000,
                 fee = 1500000, txSignature = js ''tx1''\<rparr>"

definition second_env :: store_env where
  "second_env = \<lparr>generated = replicate 32 2, payer = wallet, clock = 1700000060,
                  fee = 1500000, txSignature = js ''tx2''\<rparr>"

text \<open>The request of the specification's scenario: \<open>"Hello Solana!"\<close> in Base64.\<close>

definition hello :: body_data where
  "hello = String (js ''SGVsbG8gU29sYW5hIQ=='')"

definition after_first :: server where
  "after_first = snd (post_api_store fresh first_env hello)"





definition long_record :: bytes where
  "long_record =
     encode \<lparr>original_string = replicate 201 0x61, fingerprint = replicate 16 0,
             created_at = 1700000000, owner = wallet, cost = 1500000\<rparr>"

section \<open>Auxiliary facts\<close>

subsection \<open>The Record codec\<close>

lemma length_le_bytes [simp]: "length (le_bytes k n) = k"
  by (induction k arbitrary: n) simp_all

lemma little_endian_Cons: "little_endian (b # bs) = uint b + 256 * little_endian bs"
  by (simp add: little_endian_def)

lemma little_endian_le_bytes: "little_endian (le_bytes k n) = n mod 256 ^ k"
proof (induction k arbitrary: n)
  case 0
  show ?case by (simp add: little_endian_def)
next
  case (Suc k)
  have "uint (word_of_int n :: 8 word) = n mod 256"
    by (simp add: uint_word_of_int)
  moreover have "n mod (256 * 256 ^ k) = 256 * (n div 256 mod 256 ^ k) + n mod 256"
    by (rule zmod_zmult2_eq) simp
  ultimately show ?case
    by (simp add: little_endian_Cons Suc)
qed

lemma length_discriminator [simp]: "length discriminator = 8"
  by (simp add: discriminator_def)

lemma readUInt32LE_encode:
  assumes "length (original_string r) < 2 ^ 32"
  shows "readUInt32LE (encode r) 8 = Some (length (original_string r))"
proof -
  have "buffer_slice (encode r) 8 12 = le_bytes 4 (int (length (original_string r)))"
    by (simp add: buffer_slice_def encode_def)
  moreover have "int (length (original_string r)) mod 256 ^ 4 = int (length (original_string r))"
    using assms by simp
  ultimately show ?thesis
    by (simp add: readUInt32LE_def encode_def little_endian_le_bytes)
qed

lemma slice_string_encode:
  "buffer_slice (encode r) 12 (12 + length (original_string r)) = original_string r"
  by (simp add: buffer_slice_def encode_def)

lemma slice_signature_encode:
  assumes "length (fingerprint r) = 16"
  shows "buffer_slice (encode r) (12 + length (original_string r)) (12 + length (original_string r) + 16)
         = fingerprint r"
  using assms by (simp add: buffer_slice_def encode_def)

lemma PublicKey_32: "length k = 32 \<Longrightarrow> PublicKey k = k"
  by (simp add: PublicKey_def)

lemma read_tail_encode:
  assumes "length (fingerprint r) = 16" and "length (owner r) = 32"
  shows "read_tail (encode r) (12 + length (original_string r) + 16)
         = Some (Number (sint (created_at r)), owner r, Number (uint (cost r)))"
proof -
  let ?n = "length (original_string r)"
  have a: "buffer_slice (encode r) (12 + ?n + 16) (12 + ?n + 16 + 8) = le_bytes 8 (uint (created_at r))"
    using assms by (simp add: buffer_slice_def encode_def)
  have b: "buffer_slice (encode r) (12 + ?n + 16 + 8) (12 + ?n + 16 + 8 + 32) = owner r"
    using assms by (simp add: buffer_slice_def encode_def)
  have c: "buffer_slice (encode r) (12 + ?n + 16 + 8 + 32) (12 + ?n + 16 + 8 + 32 + 8)
           = le_bytes 8 (uint (cost r))"
    using assms by (simp add: buffer_slice_def encode_def)
  have l: "length (encode r) = 12 + ?n + 16 + 8 + 32 + 8"
    using assms by (simp add: encode_def)
  have "uint (created_at r) mod 256 ^ 8 = uint (created_at r)"
    using uint_lt2p [of "created_at r"] by simp
  then have t: "sint (word_of_int (uint (created_at r) mod 256 ^ 8) :: 64 word) = sint (created_at r)"
    by simp
  have u: "uint (cost r) mod 256 ^ 8 = uint (cost r)"
    using uint_lt2p [of "cost r"] by simp
  show ?thesis
    using a b c l t u assms
    by (simp add: read_tail_def readBigInt64LE_def readBigUInt64LE_def
        little_endian_le_bytes PublicKey_32)
qed


lemma length_Fingerprint_round: "length (snd (Fingerprint_round st b)) = length (snd st)"
  by (simp add: Fingerprint_round_def Let_def)

lemma length_foldl_Fingerprint_round:
  "length (snd (foldl Fingerprint_round st bs)) = length (snd st)"
  by (induction bs arbitrary: st) (simp_all add: length_Fingerprint_round)

lemma length_Fingerprint [simp]: "length (Fingerprint bs) = 16"
  by (simp add: Fingerprint_def length_foldl_Fingerprint_round)

lemma length_md5_round: "length (snd (md5_round st b)) = length (snd st)"
  by (simp add: md5_round_def Let_def)

lemma length_foldl_md5_round: "length (snd (foldl md5_round st bs)) = length (snd st)"
  by (induction bs arbitrary: st) (simp_all add: length_md5_round)

lemma length_md5Hash [simp]: "length (md5Hash s) = 16"
  by (simp add: md5Hash_def length_foldl_md5_round)

lemma errorCode_of_ledger_error:
  "errorCode_of ''custom program error: 0x0'' = 500"
  "errorCode_of ''EmptyString'' = 1002"
  "errorCode_of ''StringTooLong'' = 1003"
  by code_simp+

lemma store_catch_literal:
  "store_catch ''custom program error: 0x0'' = failure 500 500"
  "store_catch ''EmptyString'' = failure 400 1002"
  "store_catch ''StringTooLong'' = failure 400 1003"
  by (simp_all add: store_catch_def errorCode_of_ledger_error)

subsection \<open>Hexadecimal text\<close>






subsection \<open>The store handler\<close>

lemma success_failure [simp]: "\<not> success (failure http c)"
  by (simp add: failure_def)

lemma success_store_catch [simp]: "\<not> success (store_catch m)"
  by (simp add: store_catch_def)

lemma data_ok [simp]: "data (ok x) = Some x" "success (ok x)"
  by (simp_all add: ok_def)

lemma post_api_store_valid:
  assumes "length input \<le> 200"
    and "Buffer_from_utf8 (toString_utf8 (Buffer_from_base64 input)) = bs"
    and "bs \<noteq> []" and "length bs \<le> 200"
    and "map_of (ledger \<sigma>) (generated env) = None"
    and "length (payer env) = 32"
  shows "post_api_store \<sigma> env (String input) =
          (ok \<lparr>signature = toString_hex (Fingerprint bs),
               recordAddress = generated env,
               costLamports = Number (uint (fee env)),
               transactionSignature = txSignature env,
               timestamp = Number (sint (clock env)),
               originalString = toString_utf8 (Buffer_from_base64 input)\<rparr>,
           \<sigma>\<lparr>ledger := ledger \<sigma> @
                  [(generated env,
                    encode \<lparr>original_string = bs, fingerprint = Fingerprint bs,
                            created_at = clock env, owner = payer env, cost = fee env\<rparr>)],
              rpc_calls := rpc_calls \<sigma> + 3\<rparr>)"
proof -
  let ?r = "\<lparr>original_string = bs, fingerprint = Fingerprint bs,
             created_at = clock env, owner = payer env, cost = fee env\<rparr>"
  have len: "readUInt32LE (encode ?r) 8 = Some (length bs)"
    using readUInt32LE_encode [of ?r] assms(4) by simp
  have tail: "read_tail (encode ?r) (12 + length bs + 16)
              = Some (Number (sint (clock env)), payer env, Number (uint (fee env)))"
    using read_tail_encode [of ?r] assms(6) by simp
  have sig: "buffer_slice (encode ?r) (12 + length bs) (12 + length bs + 16) = Fingerprint bs"
    using slice_signature_encode [of ?r] by simp
  show ?thesis
    using assms len tail sig
    by (simp add: post_api_store_def storeString_def create_if_absent_def Let_def
        map_add_def)
qed

lemma post_api_store_occupied:
  assumes "length input \<le> 200"
    and "Buffer_from_utf8 (toString_utf8 (Buffer_from_base64 input)) = bs"
    and "bs \<noteq> []" and "length bs \<le> 200"
    and "map_of (ledger \<sigma>) (generated env) = Some x"
  shows "post_api_store \<sigma> env (String input) =
          (failure 500 500, \<sigma>\<lparr>rpc_calls := rpc_calls \<sigma> + 1\<rparr>)"
  using assms
  by (simp add: post_api_store_def storeString_def create_if_absent_def Let_def
      store_catch_literal)

lemma post_api_store_success:
  assumes "success (fst (post_api_store \<sigma> env body))"
  shows "\<exists>input. body = String input \<and> length input \<le> 200
          \<and> Buffer_from_utf8 (toString_utf8 (Buffer_from_base64 input)) \<noteq> []
          \<and> length (Buffer_from_utf8 (toString_utf8 (Buffer_from_base64 input))) \<le> 200
          \<and> map_of (ledger \<sigma>) (generated env) = None"
  using assms
  by (auto simp add: post_api_store_def storeString_def create_if_absent_def Let_def
      split: body_data.splits if_splits sum.splits option.splits prod.splits)

lemma post_api_store_cache:
  "uploadedSignatures (snd (post_api_store \<sigma> env body)) = uploadedSignatures \<sigma>"
  by (auto simp add: post_api_store_def Let_def
      split: body_data.splits if_splits sum.splits option.splits prod.splits)

lemma post_api_store_data:
  "data (fst (post_api_store \<sigma> env body)) = Some result \<Longrightarrow>
   success (fst (post_api_store \<sigma> env body)) \<and> recordAddress result = generated env"
  by (auto simp add: post_api_store_def Let_def store_catch_def failure_def ok_def
      split: body_data.splits if_splits sum.splits option.splits prod.splits)

lemma post_api_store_success_data:
  "success (fst (post_api_store \<sigma> env body)) \<Longrightarrow>
   \<exists>result. data (fst (post_api_store \<sigma> env body)) = Some result"
  by (auto simp add: post_api_store_def Let_def
      split: body_data.splits if_splits sum.splits option.splits prod.splits)

lemma post_api_store_occupies:
  "success (fst (post_api_store \<sigma> env body)) \<Longrightarrow>
   map_of (ledger (snd (post_api_store \<sigma> env body))) (generated env) \<noteq> None"
  by (auto simp add: post_api_store_def Let_def
      split: body_data.splits if_splits sum.splits option.splits prod.splits)

lemma post_api_store_ledger_grows:
  "map_of (ledger \<sigma>) a = Some x \<Longrightarrow>
   map_of (ledger (snd (post_api_store \<sigma> env body))) a = Some x"
  by (auto simp add: post_api_store_def storeString_def create_if_absent_def Let_def map_add_def
      split: body_data.splits if_splits sum.splits option.splits prod.splits)

lemma stored_at_Cons:
  "stored_at (r # rs) = (case data r of None \<Rightarrow> stored_at rs
                          | Some result \<Rightarrow> recordAddress result # stored_at rs)"
  by (simp add: stored_at_def List.map_filter_simps split: option.splits)

lemma stored_at_free:
  "a \<in> set (stored_at (serve_stores \<sigma> requests)) \<Longrightarrow> map_of (ledger \<sigma>) a = None"
proof (induction requests arbitrary: \<sigma>)
  case Nil
  then show ?case by (simp add: stored_at_def List.map_filter_simps)
next
  case (Cons request requests)
  obtain env body where request: "request = (env, body)" by (cases request)
  let ?\<sigma>' = "snd (post_api_store \<sigma> env body)"
  from Cons.prems request
  consider (head) result where "data (fst (post_api_store \<sigma> env body)) = Some result"
      and "a = recordAddress result"
    | (tail) "a \<in> set (stored_at (serve_stores ?\<sigma>' requests))"
    by (auto simp add: stored_at_Cons split: option.splits)
  then show ?case
  proof cases
    case head
    then have "success (fst (post_api_store \<sigma> env body))" and "a = generated env"
      using post_api_store_data by blast+
    then show ?thesis using post_api_store_success [of \<sigma> env body] by auto
  next
    case tail
    then have "map_of (ledger ?\<sigma>') a = None" by (rule Cons.IH)
    then show ?thesis
      using post_api_store_ledger_grows [of \<sigma> a _ env body] by (cases "map_of (ledger \<sigma>) a") auto
  qed
qed

lemma successful_stores_distinct: "distinct (stored_at (serve_stores \<sigma> requests))"
proof (induction requests arbitrary: \<sigma>)
  case Nil
  show ?case by (simp add: stored_at_def List.map_filter_simps)
next
  case (Cons request requests)
  obtain env body where request: "request = (env, body)" by (cases request)
  let ?\<sigma>' = "snd (post_api_store \<sigma> env body)"
  show ?case
  proof (cases "data (fst (post_api_store \<sigma> env body))")
    case None
    then show ?thesis using Cons.IH [of ?\<sigma>'] request by (simp add: stored_at_Cons)
  next
    case (Some result)
    then have s: "success (fst (post_api_store \<sigma> env body))"
      and a: "recordAddress result = generated env"
      using post_api_store_data by blast+
    have "map_of (ledger ?\<sigma>') (generated env) \<noteq> None"
      using s by (rule post_api_store_occupies)
    then have "generated env \<notin> set (stored_at (serve_stores ?\<sigma>' requests))"
      using stored_at_free [of "generated env" ?\<sigma>' requests] by auto
    then show ?thesis using Cons.IH [of ?\<sigma>'] request Some a by (simp add: stored_at_Cons)
  qed
qed

lemma decode_empty [simp]:
  "Buffer_from_base64 [] = []" "toString_utf8 [] = []"
  by (simp_all add: Buffer_from_base64_def List.map_filter_simps toString_utf8_def
      utf8_decoder_init_def)


subsection \<open>The sample requests\<close>

lemma first_store:
  "post_api_store fresh first_env hello =
     (ok \<lparr>signature = js ''00bda10d5d95d32b261308e98c840b03'',
          recordAddress = replicate 32 1,
          costLamports = 1500000,
          transactionSignature = js ''tx1'',
          timestamp = 1700000000,
          originalString = js ''Hello Solana!''\<rparr>,
      \<lparr>ledger = [(replicate 32 1,
                  encode \<lparr>original_string = Buffer_from_utf8 (js ''Hello Solana!''),
                          fingerprint = Fingerprint (Buffer_from_utf8 (js ''Hello Solana!'')),
                          created_at = 1700000000, owner = wallet, cost = 1500000\<rparr>)],
       uploadedSignatures = {}, rpc_calls = 3\<rparr>)"
  by code_simp


lemma after_first_eq:
  "after_first =
     \<lparr>ledger = [(replicate 32 1,
                  encode \<lparr>original_string = Buffer_from_utf8 (js ''Hello Solana!''),
                          fingerprint = Fingerprint (Buffer_from_utf8 (js ''Hello Solana!'')),
                          created_at = 1700000000, owner = wallet, cost = 1500000\<rparr>)],
       uploadedSignatures = {}, rpc_calls = 3\<rparr>"
  by (simp add: after_first_def first_store)

lemma second_store:
  "post_api_store after_first second_env hello =
     (ok \<lparr>signature = js ''00bda10d5d95d32b261308e98c840b03'',
          recordAddress = replicate 32 2,
          costLamports = 1500000,
          transactionSignature = js ''tx2'',
          timestamp = 1700000060,
          originalString = js ''Hello Solana!''\<rparr>,
      \<lparr>ledger = [(replicate 32 1,
                  encode \<lparr>original_string = Buffer_from_utf8 (js ''Hello Solana!''),
                          fingerprint = Fingerprint (Buffer_from_utf8 (js ''Hello Solana!'')),
                          created_at = 1700000000, owner = wallet, cost = 1500000\<rparr>),
                 (replicate 32 2,
                  encode \<lparr>original_string = Buffer_from_utf8 (js ''Hello Solana!''),
                          fingerprint = Fingerprint (Buffer_from_utf8 (js ''Hello Solana!'')),
                          created_at = 1700000060, owner = wallet, cost = 1500000\<rparr>)],
       uploadedSignatures = {}, rpc_calls = 6\<rparr>)"
  unfolding after_first_eq by code_simp

subsection \<open>The scan and the query handler\<close>




lemma scan_Matched:
  "scan accs hex = Matched result \<Longrightarrow> exists result \<and> q_signature result = Some hex"
  by (induction accs hex rule: scan.induct)
     (auto split: if_splits option.splits prod.splits)

lemma get_api_query_miss:
  assumes "input \<noteq> []" and "decodeURIComponent input = Some queried"
    and "toString_hex (md5Hash queried) \<notin> uploadedSignatures \<sigma>"
  shows "get_api_query \<sigma> input = (ok (not_found queried (toString_hex (md5Hash queried))), \<sigma>)"
  using assms by (simp add: get_api_query_def)





lemma toString_utf8_201: "toString_utf8 (replicate 201 0x61) = replicate 201 0x61"
  by code_simp

subsection \<open>Base64 and ASCII text\<close>

text \<open>
  Decoding undoes the encoding of RFC 4648: \<open>Buffer.from(base64_encode(bs), "base64")\<close>
  is \<open>bs\<close>. ASCII bytes are read as UTF-8 and written back unchanged, a byte for a code
  unit. \<open>decodeURIComponent\<close> leaves a text without \<open>%\<close> as it is.
\<close>

lemma shift_back: "2 \<le> n \<Longrightarrow> Suc (Suc (n - 2)) = n" "4 \<le> n \<Longrightarrow> 4 + (n - 4) = n"
  "6 \<le> n \<Longrightarrow> 6 + (n - 6) = n" "2 \<le> n \<Longrightarrow> 2 + (n - 2) = n"
  by simp_all

lemma join_a: "push_bit 2 (drop_bit 2 a) OR drop_bit 4 (push_bit 4 (take_bit 2 a) OR drop_bit 4 b) = (a :: byte)"
  apply (rule bit_word_eqI)
  subgoal for n
    by (cases "2 \<le> n") (auto simp add: bit_simps shift_back)
  done

lemma join_b: "push_bit 4 (push_bit 4 (take_bit 2 a) OR drop_bit 4 b)
                 OR drop_bit 2 (push_bit 2 (take_bit 4 b) OR drop_bit 6 c) = (b :: byte)"
  apply (rule bit_word_eqI)
  subgoal for n
    by (cases "4 \<le> n") (auto simp add: bit_simps shift_back)
  done

lemma join_c: "push_bit 6 (push_bit 2 (take_bit 4 b) OR drop_bit 6 c) OR take_bit 6 c = (c :: byte)"
  apply (rule bit_word_eqI)
  subgoal for n
    by (cases "6 \<le> n") (auto simp add: bit_simps shift_back)
  done

lemma join_a1: "push_bit 2 (drop_bit 2 a) OR drop_bit 4 (push_bit 4 (take_bit 2 a)) = (a :: byte)"
  apply (rule bit_word_eqI)
  subgoal for n
    by (cases "2 \<le> n") (auto simp add: bit_simps shift_back)
  done

lemma join_b2: "push_bit 4 (push_bit 4 (take_bit 2 a) OR drop_bit 4 b)
                 OR drop_bit 2 (push_bit 2 (take_bit 4 b)) = (b :: byte)"
  apply (rule bit_word_eqI)
  subgoal for n
    by (cases "4 \<le> n") (auto simp add: bit_simps shift_back)
  done

lemma less_64_if: "take_bit 6 x = x \<Longrightarrow> x < (64 :: byte)"
proof -
  assume "take_bit 6 x = x"
  then have "uint x = take_bit 6 (uint x)"
    by (metis unsigned_take_bit_eq)
  also have "\<dots> < 2 ^ 6" by (rule take_bit_int_less_exp)
  finally show ?thesis by (simp add: word_less_def)
qed

lemma sextet_less:
  "drop_bit 2 a < (64 :: byte)"
  "push_bit 4 (take_bit 2 a) OR drop_bit 4 b < (64 :: byte)"
  "push_bit 2 (take_bit 4 b) OR drop_bit 6 c < (64 :: byte)"
  "take_bit 6 c < (64 :: byte)"
  "push_bit 4 (take_bit 2 a) < (64 :: byte)"
  "push_bit 2 (take_bit 4 b) < (64 :: byte)"
  by (rule less_64_if, rule bit_word_eqI, auto simp add: bit_simps dest: bit_imp_le_length)+

lemma uint_ucast_byte [simp]: "uint (ucast (b :: byte) :: 16 word) = uint b"
  by (rule uint_up_ucast) (simp add: is_up)

lemma uint_ucast_unit [simp]: "uint (ucast (c :: 16 word) :: 32 word) = uint c"
  by (rule uint_up_ucast) (simp add: is_up)

lemma ucast_byte_back [simp]: "(ucast (ucast (b :: byte) :: 16 word) :: byte) = b"
  by (rule ucast_up_ucast_id) (simp add: is_up)

lemma ucast_byte_back32 [simp]:
  "(ucast (ucast (ucast (b :: byte) :: 16 word) :: 32 word) :: byte) = b"
  by (simp add: ucast_up_ucast is_up ucast_up_ucast_id)

lemma ascii_unit:
  assumes "b < (0x80 :: byte)"
  shows "b \<le> 0x7F" and "\<not> lead_surrogate (ucast b)" and "\<not> trail_surrogate (ucast b)"
    and "scalar_value (ucast b) = ucast (ucast b :: 16 word)"
    and "utf8_of_code_point (ucast (ucast b :: 16 word)) = [b]"
  using assms
  by (simp_all add: word_less_def word_le_def lead_surrogate_def trail_surrogate_def
      scalar_value_def utf8_of_code_point_def)

lemma sextet_enum: "x < 64 \<Longrightarrow> (x :: byte) \<in> set (map of_nat [0..<64])"
proof -
  assume "x < 64"
  then have "unat x < 64" by (simp add: word_less_nat_alt)
  then have "of_nat (unat x) \<in> (of_nat :: nat \<Rightarrow> byte) ` {0..<64}" by (intro imageI) simp
  then show ?thesis by simp
qed

lemma base64_digit_all:
  "list_all (\<lambda>n. unbase64 (ucast (base64_digit n)) = Some n
                 \<and> (ucast (base64_digit n) :: byte) \<noteq> 0x3D) (map of_nat [0..<64])"
  by code_simp

lemma base64_digit_back:
  assumes "x < 64"
  shows "unbase64 (ucast (base64_digit x)) = Some x" and "(ucast (base64_digit x) :: byte) \<noteq> 0x3D"
  using base64_digit_all sextet_enum [OF assms] unfolding list_all_iff by blast+

lemma sextets_less: "list_all (\<lambda>x. x < 64) (sextets bs)"
  by (induction bs rule: sextets.induct) (simp_all add: sextet_less)

lemma join_simplified:
  "push_bit 4 (drop_bit 4 b) OR drop_bit 2 (push_bit 2 (take_bit 4 b)) = (b :: byte)"
  "push_bit 6 (drop_bit 6 c) OR take_bit 6 c = (c :: byte)"
proof -
  show "push_bit 4 (drop_bit 4 b) OR drop_bit 2 (push_bit 2 (take_bit 4 b)) = b"
    apply (rule bit_word_eqI)
    subgoal for n
      by (cases "4 \<le> n") (auto simp add: bit_simps shift_back)
    done
  show "push_bit 6 (drop_bit 6 c) OR take_bit 6 c = c"
    apply (rule bit_word_eqI)
    subgoal for n
      by (cases "6 \<le> n") (auto simp add: bit_simps shift_back)
    done
qed

lemma base64_groups_sextets: "base64_groups (sextets bs) = bs"
  by (induction bs rule: sextets.induct)
     (simp_all add: join_a join_b join_c join_a1 join_b2 join_simplified)

lemma map_filter_digits:
  "list_all (\<lambda>x. x < 64) xs \<Longrightarrow>
   List.map_filter unbase64 (map (\<lambda>x. ucast (base64_digit x)) xs) = xs"
  by (induction xs) (simp_all add: List.map_filter_simps base64_digit_back)

lemma takeWhile_digits:
  assumes "list_all (\<lambda>x. x < 64) xs"
  shows "takeWhile (\<lambda>c. c \<noteq> 0x3D) (map (\<lambda>x. ucast (base64_digit x) :: byte) xs @ replicate p 0x3D)
         = map (\<lambda>x. ucast (base64_digit x)) xs"
  using assms
proof (induction xs)
  case Nil
  show ?case by (cases p) simp_all
next
  case (Cons x xs)
  then show ?case by (simp add: base64_digit_back)
qed

lemma Buffer_from_base64_encode: "Buffer_from_base64 (base64_encode bs) = bs"
proof -
  have "(map ucast (base64_encode bs) :: bytes)
        = map (\<lambda>x. ucast (base64_digit x)) (sextets bs)
          @ replicate ((3 - length bs mod 3) mod 3) 0x3D"
    by (simp add: base64_encode_def comp_def)
  then show ?thesis
    by (simp add: Buffer_from_base64_def takeWhile_digits map_filter_digits sextets_less
        base64_groups_sextets)
qed

lemma length_base64_encode: "length (base64_encode bs) = 4 * ((length bs + 2) div 3)"
proof -
  have "length (sextets bs) + (3 - length bs mod 3) mod 3 = 4 * ((length bs + 2) div 3)"
  proof (induction bs rule: sextets.induct)
    case (1 a b c rest)
    have "(5 + length rest) div 3 = Suc (Suc (Suc (length rest)) div 3)" by presburger
    with 1 show ?case by simp
  qed simp_all
  then show ?thesis by (simp add: base64_encode_def)
qed

lemma base64_encode_longer: "bs \<noteq> [] \<Longrightarrow> length bs < length (base64_encode bs)"
  by (cases bs) (simp_all add: length_base64_encode)

lemma base64_encode_200: "length (base64_encode bs) \<le> 200 \<Longrightarrow> length bs \<le> 150"
  by (simp add: length_base64_encode)

lemma foldl_utf8_ascii:
  assumes "list_all (\<lambda>b. b < 0x80) t" and "bytes_needed s = 0"
  shows "foldl utf8_decoder_step s t = s\<lparr>decoded := decoded s @ map ucast t\<rparr>"
  using assms
proof (induction t arbitrary: s)
  case Nil
  then show ?case by simp
next
  case (Cons b t)
  then have "utf8_decoder_step s b = s\<lparr>decoded := decoded s @ [ucast b]\<rparr>"
    by (simp add: utf8_decoder_step_def utf8_lead_byte_def ascii_unit)
  with Cons show ?case by simp
qed

lemma toString_utf8_ascii: "list_all (\<lambda>b. b < 0x80) t \<Longrightarrow> toString_utf8 t = map ucast t"
  by (simp add: toString_utf8_def foldl_utf8_ascii utf8_decoder_init_def Let_def)

lemma Buffer_from_utf8_ascii:
  "list_all (\<lambda>b. b < 0x80) t \<Longrightarrow> Buffer_from_utf8 (map ucast t) = t"
proof (induction t)
  case Nil
  show ?case by simp
next
  case (Cons b t)
  then show ?case by (cases t) (simp_all add: ascii_unit)
qed

lemma decodeURIComponent_plain: "0x25 \<notin> set s \<Longrightarrow> decodeURIComponent s = Some s"
proof (induction s)
  case Nil
  show ?case by (subst decodeURIComponent.simps) simp
next
  case (Cons c s)
  then show ?case by (subst decodeURIComponent.simps) auto
qed

subsection \<open>More on the two handlers\<close>





lemma decoded_base64_encode_ascii:
  assumes "list_all (\<lambda>b. b < 0x80) t"
  shows "toString_utf8 (Buffer_from_base64 (base64_encode t)) = map ucast t"
    and "Buffer_from_utf8 (toString_utf8 (Buffer_from_base64 (base64_encode t))) = t"
  using assms
  by (simp_all add: Buffer_from_base64_encode toString_utf8_ascii Buffer_from_utf8_ascii)

lemma post_api_store_ascii:
  assumes "list_all (\<lambda>b. b < 0x80) t" and "t \<noteq> []"
    and "length (base64_encode t) \<le> 200"
    and "map_of (ledger \<sigma>) (generated env) = None"
    and "length (payer env) = 32"
  shows "post_api_store \<sigma> env (String (base64_encode t)) =
          (ok \<lparr>signature = toString_hex (Fingerprint t),
               recordAddress = generated env,
               costLamports = Number (uint (fee env)),
               transactionSignature = txSignature env,
               timestamp = Number (sint (clock env)),
               originalString = map ucast t\<rparr>,
           \<sigma>\<lparr>ledger := ledger \<sigma> @
                  [(generated env,
                    encode \<lparr>original_string = t, fingerprint = Fingerprint t,
                            created_at = clock env, owner = payer env, cost = fee env\<rparr>)],
              rpc_calls := rpc_calls \<sigma> + 3\<rparr>)"
proof -
  have "length t \<le> 200" using base64_encode_200 [OF assms(3)] by simp
  from post_api_store_valid
         [OF assms(3) decoded_base64_encode_ascii(2) [OF assms(1)] assms(2) this assms(4,5)]
  show ?thesis by (simp add: decoded_base64_encode_ascii(1) [OF assms(1)])
qed

lemma get_api_query_scan:
  assumes "input \<noteq> []" and "decodeURIComponent input = Some queried"
    and "toString_hex (md5Hash queried) \<in> uploadedSignatures \<sigma>"
  shows "get_api_query \<sigma> input =
          (case scan (ledger \<sigma>) (toString_hex (md5Hash queried)) of
             Matched result \<Rightarrow> ok result
           | NoMatch \<Rightarrow> ok (not_found queried (toString_hex (md5Hash queried)))
           | Threw \<Rightarrow> failure 500 500,
           \<sigma>\<lparr>rpc_calls := rpc_calls \<sigma> + 1\<rparr>)"
  using assms by (simp add: get_api_query_def Let_def split: scan_result.splits)

lemma sample_fields:
  "generated first_env = replicate 32 1" "payer first_env = wallet"
  "clock first_env = 1700000000" "fee first_env = 1500000" "txSignature first_env = js ''tx1''"
  "generated second_env = replicate 32 2" "payer second_env = wallet"
  "clock second_env = 1700000060" "fee second_env = 1500000" "txSignature second_env = js ''tx2''"
  "ledger fresh = []" "uploadedSignatures fresh = {}" "rpc_calls fresh = 0"
  by (simp_all add: first_env_def second_env_def fresh_def)






lemma get_api_query_success:
  assumes "success (fst (get_api_query \<tau> text))"
  shows "\<exists>queried. decodeURIComponent text = Some queried
           \<and> map_option q_signature (data (fst (get_api_query \<tau> text)))
               = Some (Some (toString_hex (md5Hash queried)))
           \<and> (map_option exists (data (fst (get_api_query \<tau> text))) = Some False \<longrightarrow>
                map_option q_originalString (data (fst (get_api_query \<tau> text)))
                  = Some (Some queried))"
proof -
  from assms obtain queried where q: "decodeURIComponent text = Some queried" and "text \<noteq> []"
    by (auto simp add: get_api_query_def split: if_splits option.splits)
  show ?thesis
    using assms q \<open>text \<noteq> []\<close>
    by (auto simp add: get_api_query_def Let_def not_found_def ok_def
        dest: scan_Matched split: if_splits scan_result.splits)
qed

lemma post_api_store_success_record:
  assumes "success (fst (post_api_store \<sigma> env (String input)))"
  shows "map_option originalString (data (fst (post_api_store \<sigma> env (String input))))
        = Some (toString_utf8 (Buffer_from_base64 input))"
    and "map_of (ledger (snd (post_api_store \<sigma> env (String input)))) (generated env)
        = Some (encode
            \<lparr>original_string = Buffer_from_utf8 (toString_utf8 (Buffer_from_base64 input)),
             fingerprint =
               Fingerprint (Buffer_from_utf8 (toString_utf8 (Buffer_from_base64 input))),
             created_at = clock env, owner = payer env, cost = fee env\<rparr>)"
  using assms
  by (auto simp add: post_api_store_def storeString_def create_if_absent_def Let_def
        map_add_def ok_def
        split: if_splits sum.splits option.splits prod.splits)

lemma Number_samples: "Number 1500000 = 1500000" "Number 1700000000 = 1700000000"
  by code_simp+

lemma sample_envs [simp]:
  "length (payer first_env) = 32" "length (payer second_env) = 32"
  "map_of (ledger fresh) a = None"
  by (simp_all add: first_env_def second_env_def wallet_def fresh_def)

section \<open>Properties of the fingerprint\<close>

text \<open>
  C1. The claim: \<open>md5Hash\<close> computes, on every byte sequence, the algorithm of section 4.1
  with its 64-bit accumulator. The source does not: its accumulator is a double that keeps
  53 bits and that \<open>^=\<close> cuts to 32 bits. On the one-byte input \<open>"a"\<close> the two differ.
\<close>

theorem md5Hash_a_is_not_Fingerprint_a:
  "md5Hash (js ''a'') = [97, 5, 2, 254, 4, 5, 6, 130, 8, 9, 10, 11, 12, 13, 14, 15]
   \<and> Fingerprint (Buffer_from_utf8 (js ''a'')) =
       [0, 1, 2, 133, 4, 5, 6, 7, 8, 9, 10, 11, 109, 225, 14, 14]"
  by code_simp

text \<open>
  C8. The fingerprint of the empty input is the initial buffer \<open>0, 1, \<dots>, 15\<close>: the loop body
  never runs.
\<close>

theorem md5Hash_empty:
  "md5Hash [] = [0, 1, 2, 3, 4, 5, 6, 7, 8, 9, 10, 11, 12, 13, 14, 15]"
  by code_simp

section \<open>Properties of the store operation\<close>

text \<open>
  C2. The claim: the storage address is a deterministic function of the namespace tag and
  the content string, so that two store attempts of the same string yield the same address.
  The server's own documentation of \<open>GET /api/query\<close> says so too (storage is by PDA, the
  same string gives the same address), and the program's test derives the address from the
  string. The store handler does not derive the address from the content: each request uses
  the public key of a newly generated key pair. Here the same string is stored twice; both
  stores succeed, each at the key generated for it, the two addresses differ, and the Ledger
  ends up holding two Records of \<open>"Hello Solana!"\<close>.
\<close>

theorem store_same_string_two_addresses:
  "success (fst (post_api_store fresh first_env hello))
   \<and> success (fst (post_api_store after_first second_env hello))
   \<and> map_option recordAddress (data (fst (post_api_store fresh first_env hello)))
       \<noteq> map_option recordAddress (data (fst (post_api_store after_first second_env hello)))
   \<and> map_option recordAddress (data (fst (post_api_store fresh first_env hello)))
       = Some (generated first_env)
   \<and> map_option recordAddress (data (fst (post_api_store after_first second_env hello)))
       = Some (generated second_env)
   \<and> generated first_env \<noteq> generated second_env
   \<and> map (\<lambda>(address, accountData). (address, stored_string accountData))
          (ledger (snd (post_api_store after_first second_env hello)))
       = [(generated first_env, js ''Hello Solana!''), (generated second_env, js ''Hello Solana!'')]"
proof -
  have "stored_string (encode \<lparr>original_string = Buffer_from_utf8 (js ''Hello Solana!''),
                          fingerprint = Fingerprint (Buffer_from_utf8 (js ''Hello Solana!'')),
                          created_at = t, owner = wallet, cost = 1500000\<rparr>)
        = js ''Hello Solana!''" for t
  proof -
    let ?r = "\<lparr>original_string = Buffer_from_utf8 (js ''Hello Solana!''),
                          fingerprint = Fingerprint (Buffer_from_utf8 (js ''Hello Solana!'')),
                          created_at = t, owner = wallet, cost = 1500000\<rparr>"
    have l: "length (Buffer_from_utf8 (js ''Hello Solana!'')) = 13" by code_simp
    have "readUInt32LE (encode ?r) 8 = Some 13"
      using readUInt32LE_encode [of ?r] l by simp
    moreover have "buffer_slice (encode ?r) 12 (12 + 13) = Buffer_from_utf8 (js ''Hello Solana!'')"
      using slice_string_encode [of ?r] l by simp
    moreover have "toString_utf8 (Buffer_from_utf8 (js ''Hello Solana!'')) = js ''Hello Solana!''"
      by code_simp
    ultimately show ?thesis by (simp add: stored_string_def)
  qed
  then show ?thesis
    by (simp add: first_store second_store sample_fields)
qed

text \<open>
  What holds instead: the address of a successful store is the public key of the key pair
  generated for that request, whatever the string is; that address was free before the
  store and holds an account after it.
\<close>

proposition store_address_is_generated_key:
  assumes "success (fst (post_api_store \<sigma> env body))"
  shows "map_option recordAddress (data (fst (post_api_store \<sigma> env body))) = Some (generated env)
       \<and> map_of (ledger \<sigma>) (generated env) = None
       \<and> map_of (ledger (snd (post_api_store \<sigma> env body))) (generated env) \<noteq> None"
  using post_api_store_success_data [OF assms] post_api_store_data [of \<sigma> env body]
    post_api_store_success [OF assms] post_api_store_occupies [OF assms]
  by auto

proposition store_address_is_generated_key_instance:
  "success (fst (post_api_store fresh first_env hello))
   \<and> map_option recordAddress (data (fst (post_api_store fresh first_env hello)))
       = Some (generated first_env)
   \<and> map_of (ledger (snd (post_api_store fresh first_env hello))) (generated first_env) \<noteq> None"
proof -
  have s: "success (fst (post_api_store fresh first_env hello))"
    by (simp add: first_store)
  from store_address_is_generated_key [OF s] s show ?thesis by simp
qed

text \<open>
  C3. The claim: storing a valid string twice yields a success on the first store and the
  duplicate-submission error \<open>AlreadyExists\<close> on the second. The server stores the same
  string a second time: the second request gets an address of its own, the program sees a
  free address, and the store succeeds (code 0, not 1001).
\<close>

theorem store_twice_second_succeeds:
  "success (fst (post_api_store fresh first_env hello))
   \<and> success (fst (post_api_store after_first second_env hello))
   \<and> code (fst (post_api_store after_first second_env hello)) \<noteq> 1001"
  by (simp add: first_store second_store ok_def)

text \<open>
  What holds of two stores of a valid string, the first at a free address: the first
  succeeds; the second fails, the Ledger unchanged, exactly when its generated address is
  occupied, and succeeds at its own address otherwise. The Ledger's error for an occupied
  address carries no key of \<open>ERROR_CODES\<close> in its message, so the server answers it with
  500 and not with the code 1001 of \<open>AlreadyExists\<close>. In every run of store requests the addresses of the successful stores are
  pairwise distinct: there are never two successful stores at one address.
\<close>

proposition store_twice:
  assumes "length input \<le> 200"
    and "Buffer_from_utf8 (toString_utf8 (Buffer_from_base64 input)) = bs"
    and "bs \<noteq> []" and "length bs \<le> 200"
    and "length (payer env1) = 32" and "length (payer env2) = 32"
    and "map_of (ledger \<sigma>) (generated env1) = None"
    and "post_api_store \<sigma> env1 (String input) = (r1, \<sigma>1)"
    and "post_api_store \<sigma>1 env2 (String input) = (r2, \<sigma>2)"
  shows "success r1
     \<and> (if generated env2 \<noteq> generated env1 \<and> map_of (ledger \<sigma>) (generated env2) = None
        then success r2
             \<and> map_option recordAddress (data r1) = Some (generated env1)
             \<and> map_option recordAddress (data r2) = Some (generated env2)
        else r2 = failure 500 500 \<and> ledger \<sigma>2 = ledger \<sigma>1)
     \<and> distinct (stored_at (serve_stores \<tau> requests))"
proof -
  note first = post_api_store_valid [OF assms(1,2,3,4,7,5)]
  have r1: "r1 = fst (post_api_store \<sigma> env1 (String input))"
    and s1: "\<sigma>1 = snd (post_api_store \<sigma> env1 (String input))"
    using assms(8) by simp_all
  have ledger1: "ledger \<sigma>1 = ledger \<sigma> @
      [(generated env1, encode \<lparr>original_string = bs, fingerprint = Fingerprint bs,
          created_at = clock env1, owner = payer env1, cost = fee env1\<rparr>)]"
    unfolding s1 first by simp
  have "success r1" and a1: "map_option recordAddress (data r1) = Some (generated env1)"
    unfolding r1 first by simp_all
  moreover have "success r2 \<and> map_option recordAddress (data r2) = Some (generated env2)"
    if "generated env2 \<noteq> generated env1" and "map_of (ledger \<sigma>) (generated env2) = None"
  proof -
    have "map_of (ledger \<sigma>1) (generated env2) = None"
      using that by (simp add: ledger1 map_add_def)
    from post_api_store_valid [OF assms(1,2,3,4) this assms(6)] assms(9)
    show ?thesis by auto
  qed
  moreover have "r2 = failure 500 500 \<and> ledger \<sigma>2 = ledger \<sigma>1"
    if "\<not> (generated env2 \<noteq> generated env1 \<and> map_of (ledger \<sigma>) (generated env2) = None)"
  proof -
    have "map_of (ledger \<sigma>1) (generated env2) \<noteq> None"
      using that by (auto simp add: ledger1 map_add_def split: option.splits)
    then obtain x where "map_of (ledger \<sigma>1) (generated env2) = Some x"
      by blast
    from post_api_store_occupied [OF assms(1,2,3,4) this] assms(9)
    show ?thesis by auto
  qed
  ultimately show ?thesis
    using a1 successful_stores_distinct [of \<tau> requests] by auto
qed

proposition store_twice_instance:
  "success (fst (post_api_store fresh first_env hello))
   \<and> success (fst (post_api_store after_first second_env hello))
   \<and> map_option recordAddress (data (fst (post_api_store after_first second_env hello)))
       = Some (generated second_env)
   \<and> fst (post_api_store after_first first_env hello) = failure 500 500
   \<and> distinct (stored_at (serve_stores fresh [(first_env, hello), (second_env, hello)]))"
proof -
  let ?input = "js ''SGVsbG8gU29sYW5hIQ==''"
  let ?bs = "Buffer_from_utf8 (js ''Hello Solana!'')"
  have 1: "length ?input \<le> 200" by (simp add: js_def)
  have 2: "Buffer_from_utf8 (toString_utf8 (Buffer_from_base64 ?input)) = ?bs" by code_simp
  have 3: "?bs \<noteq> []" by code_simp
  have 4: "length ?bs \<le> 200" by code_simp
  have 5: "length (payer first_env) = 32" "length (payer second_env) = 32"
    by (simp_all add: first_env_def second_env_def wallet_def)
  have 6: "map_of (ledger fresh) (generated first_env) = None" by (simp add: fresh_def)
  have 7: "post_api_store fresh first_env (String ?input)
           = (fst (post_api_store fresh first_env hello), after_first)"
    by (simp add: after_first_def hello_def)
  have 8: "post_api_store after_first second_env (String ?input)
           = (fst (post_api_store after_first second_env hello),
              snd (post_api_store after_first second_env hello))"
    by (simp add: hello_def)
  have 9: "post_api_store after_first first_env (String ?input)
           = (fst (post_api_store after_first first_env hello),
              snd (post_api_store after_first first_env hello))"
    by (simp add: hello_def)
  have 10: "generated second_env \<noteq> generated first_env"
    by (simp add: first_env_def second_env_def)
  have 11: "map_of (ledger fresh) (generated second_env) = None" by (simp add: fresh_def)
  from store_twice [OF 1 2 3 4 5(1) 5(2) 6 7 8, of fresh "[(first_env, hello), (second_env, hello)]"]
       store_twice [OF 1 2 3 4 5(1) 5(1) 6 7 9, of fresh "[]"] 10 11
  show ?thesis by simp
qed

text \<open>
  C4. The claim: after a successful store of \<open>s\<close> the fingerprint of \<open>s\<close> is in the Lookup
  Cache. The handler never adds to \<open>uploadedSignatures\<close>: after the successful store of
  \<open>"Hello Solana!"\<close> by a freshly started server the set is still empty.
\<close>

theorem store_leaves_cache_empty:
  "success (fst (post_api_store fresh first_env hello))
   \<and> uploadedSignatures (snd (post_api_store fresh first_env hello)) = {}
   \<and> toString_hex (md5Hash (js ''Hello Solana!''))
       \<notin> uploadedSignatures (snd (post_api_store fresh first_env hello))"
  by (simp add: first_store)




section \<open>Properties of the query operation\<close>






section \<open>Properties of decoding\<close>

text \<open>
  C7. The claim: decoding a buffer fails whenever one of the three validations fails, among
  them \<open>string_length \<le> 200\<close>. The handler of \<open>GET /api/record/:address\<close> rejects a string
  length above 1000 only: a buffer whose string has 201 bytes does not have a valid layout,
  and is decoded to a full record all the same.
\<close>

theorem decode_account_accepts_string_length_201:
  "\<not> valid_layout long_record
   \<and> readUInt32LE long_record 8 = Some 201
   \<and> success (decode_account (replicate 32 4) long_record)
   \<and> map_option exists (data (decode_account (replicate 32 4) long_record)) = Some True
   \<and> map_option q_originalString (data (decode_account (replicate 32 4) long_record))
       = Some (Some (replicate 201 0x61))"
proof -
  let ?r = "\<lparr>original_string = replicate 201 0x61, fingerprint = replicate 16 0,
             created_at = 1700000000, owner = wallet, cost = 1500000\<rparr>"
  have n: "readUInt32LE (encode ?r) 8 = Some 201"
    using readUInt32LE_encode [of ?r] by simp
  have t: "read_tail (encode ?r) (12 + 201 + 16)
           = Some (Number (sint (created_at ?r)), owner ?r, Number (uint (cost ?r)))"
    using read_tail_encode [of ?r] by (simp add: wallet_def)
  have s: "buffer_slice (encode ?r) 12 (12 + 201) = replicate 201 0x61"
    using slice_string_encode [of ?r] by simp
  have l: "length (encode ?r) = 277"
    by (simp add: encode_def wallet_def)
  show ?thesis
    using n t s l
    by (simp add: long_record_def valid_layout_def decode_account_def toString_utf8_201)
qed

section \<open>Base64 in the store operation\<close>

text \<open>
  C10. The claim: for every store request the persisted string and the \<open>originalString\<close> of
  the success response equal the Base64 decoding of the submitted input. Between the two
  the handler reads the decoded bytes as UTF-8 text, and what the program is given is the
  UTF-8 encoding of that text. The input \<open>"/w=="\<close> is the Base64 text of the single byte
  \<open>FF\<close>, which is not UTF-8: the response carries U+FFFD, and the three bytes \<open>EF BF BD\<close>
  are persisted.
\<close>

theorem store_replaces_ill_formed_bytes:
  "base64_encode [0xFF] = js ''/w==''
   \<and> Buffer_from_base64 (js ''/w=='') = [0xFF]
   \<and> post_api_store fresh first_env (String (js ''/w==''))
       = (ok \<lparr>signature = toString_hex (Fingerprint [0xEF, 0xBF, 0xBD]),
              recordAddress = generated first_env, costLamports = 1500000,
              transactionSignature = js ''tx1'', timestamp = 1700000000,
              originalString = [0xFFFD]\<rparr>,
          fresh\<lparr>ledger :=
                  [(generated first_env,
                    encode \<lparr>original_string = [0xEF, 0xBF, 0xBD],
                            fingerprint = Fingerprint [0xEF, 0xBF, 0xBD],
                            created_at = 1700000000, owner = wallet, cost = 1500000\<rparr>)],
                rpc_calls := 3\<rparr>)"
proof -
  have 1: "base64_encode [0xFF] = js ''/w==''" by code_simp
  have 2: "Buffer_from_base64 (js ''/w=='') = [0xFF]" by code_simp
  have 3: "Buffer_from_utf8 (toString_utf8 (Buffer_from_base64 (js ''/w=='')))
           = [0xEF, 0xBF, 0xBD]"
    by code_simp
  have 4: "toString_utf8 (Buffer_from_base64 (js ''/w=='')) = [0xFFFD]" by code_simp
  have 5: "length (js ''/w=='') \<le> 200" by (simp add: js_def)
  from post_api_store_valid [OF 5 3, of fresh first_env] 1 2 4
  show ?thesis by (simp add: Number_samples) (simp add: fresh_def first_env_def Number_samples)
qed

text \<open>
  C10, as amended. The store operation takes the submitted \<open>data\<close> for Base64, decodes it
  and reads the decoded bytes as UTF-8 text, in which every ill-formed sequence is replaced
  by U+FFFD: the \<open>originalString\<close> of the success response is that text, and the persisted
  string, from which the Ledger computes the fingerprint, is its UTF-8 encoding. For the
  Base64 text of a non-empty ASCII string \<open>t\<close> both are \<open>t\<close>, the Base64 decoding of the
  input, and not the input itself. The query-by-string operation applies no such decoding:
  an input without \<open>%\<close> is hashed and echoed as it is, and in general after
  \<open>decodeURIComponent\<close> alone.
\<close>

theorem store_decodes_base64_query_does_not:
  "(list_all (\<lambda>b. b < 0x80) t \<and> t \<noteq> [] \<and> length (base64_encode t) \<le> 200
      \<and> map_of (ledger \<sigma>) (generated env) = None \<and> length (payer env) = 32 \<longrightarrow>
      post_api_store \<sigma> env (String (base64_encode t)) =
        (ok \<lparr>signature = toString_hex (Fingerprint t),
             recordAddress = generated env,
             costLamports = Number (uint (fee env)),
             transactionSignature = txSignature env,
             timestamp = Number (sint (clock env)),
             originalString = map ucast t\<rparr>,
         \<sigma>\<lparr>ledger := ledger \<sigma> @
                [(generated env,
                  encode \<lparr>original_string = t, fingerprint = Fingerprint t,
                          created_at = clock env, owner = payer env, cost = fee env\<rparr>)],
            rpc_calls := rpc_calls \<sigma> + 3\<rparr>)
      \<and> base64_encode t \<noteq> map ucast t)
   \<and> (length input \<le> 200
      \<and> Buffer_from_utf8 (toString_utf8 (Buffer_from_base64 input)) \<noteq> []
      \<and> length (Buffer_from_utf8 (toString_utf8 (Buffer_from_base64 input))) \<le> 200
      \<and> map_of (ledger \<sigma>) (generated env) = None \<and> length (payer env) = 32 \<longrightarrow>
      post_api_store \<sigma> env (String input) =
        (ok \<lparr>signature = toString_hex
               (Fingerprint (Buffer_from_utf8 (toString_utf8 (Buffer_from_base64 input)))),
             recordAddress = generated env,
             costLamports = Number (uint (fee env)),
             transactionSignature = txSignature env,
             timestamp = Number (sint (clock env)),
             originalString = toString_utf8 (Buffer_from_base64 input)\<rparr>,
         \<sigma>\<lparr>ledger := ledger \<sigma> @
                [(generated env,
                  encode
                    \<lparr>original_string =
                       Buffer_from_utf8 (toString_utf8 (Buffer_from_base64 input)),
                     fingerprint =
                       Fingerprint (Buffer_from_utf8 (toString_utf8 (Buffer_from_base64 input))),
                     created_at = clock env, owner = payer env, cost = fee env\<rparr>)],
            rpc_calls := rpc_calls \<sigma> + 3\<rparr>))
   \<and> (success (fst (post_api_store \<sigma> env (String input))) \<longrightarrow>
      map_option originalString (data (fst (post_api_store \<sigma> env (String input))))
        = Some (toString_utf8 (Buffer_from_base64 input))
      \<and> map_of (ledger (snd (post_api_store \<sigma> env (String input)))) (generated env)
        = Some (encode
            \<lparr>original_string = Buffer_from_utf8 (toString_utf8 (Buffer_from_base64 input)),
             fingerprint =
               Fingerprint (Buffer_from_utf8 (toString_utf8 (Buffer_from_base64 input))),
             created_at = clock env, owner = payer env, cost = fee env\<rparr>))
   \<and> (text \<noteq> [] \<and> 0x25 \<notin> set text \<longrightarrow>
        get_api_query \<tau> text =
          (if toString_hex (md5Hash text) \<notin> uploadedSignatures \<tau>
           then (ok (not_found text (toString_hex (md5Hash text))), \<tau>)
           else (case scan (ledger \<tau>) (toString_hex (md5Hash text)) of
                   Matched result \<Rightarrow> ok result
                 | NoMatch \<Rightarrow> ok (not_found text (toString_hex (md5Hash text)))
                 | Threw \<Rightarrow> failure 500 500,
                 \<tau>\<lparr>rpc_calls := rpc_calls \<tau> + 1\<rparr>)))
   \<and> (success (fst (get_api_query \<tau> text)) \<longrightarrow>
        (\<exists>queried. decodeURIComponent text = Some queried
           \<and> map_option q_signature (data (fst (get_api_query \<tau> text)))
               = Some (Some (toString_hex (md5Hash queried)))
           \<and> (map_option exists (data (fst (get_api_query \<tau> text))) = Some False \<longrightarrow>
                map_option q_originalString (data (fst (get_api_query \<tau> text)))
                  = Some (Some queried))))"
proof (intro conjI impI)
  assume a: "list_all (\<lambda>b. b < 0x80) t \<and> t \<noteq> [] \<and> length (base64_encode t) \<le> 200
      \<and> map_of (ledger \<sigma>) (generated env) = None \<and> length (payer env) = 32"
  then show "post_api_store \<sigma> env (String (base64_encode t)) =
        (ok \<lparr>signature = toString_hex (Fingerprint t),
             recordAddress = generated env,
             costLamports = Number (uint (fee env)),
             transactionSignature = txSignature env,
             timestamp = Number (sint (clock env)),
             originalString = map ucast t\<rparr>,
         \<sigma>\<lparr>ledger := ledger \<sigma> @
                [(generated env,
                  encode \<lparr>original_string = t, fingerprint = Fingerprint t,
                          created_at = clock env, owner = payer env, cost = fee env\<rparr>)],
            rpc_calls := rpc_calls \<sigma> + 3\<rparr>)"
    using post_api_store_ascii [of t \<sigma> env] by simp
  from a have "length (map ucast t :: jsstring) < length (base64_encode t)"
    using base64_encode_longer [of t] by simp
  then show "base64_encode t \<noteq> map ucast t" by auto
next
  assume "length input \<le> 200
      \<and> Buffer_from_utf8 (toString_utf8 (Buffer_from_base64 input)) \<noteq> []
      \<and> length (Buffer_from_utf8 (toString_utf8 (Buffer_from_base64 input))) \<le> 200
      \<and> map_of (ledger \<sigma>) (generated env) = None \<and> length (payer env) = 32"
  then show "post_api_store \<sigma> env (String input) =
        (ok \<lparr>signature = toString_hex
               (Fingerprint (Buffer_from_utf8 (toString_utf8 (Buffer_from_base64 input)))),
             recordAddress = generated env,
             costLamports = Number (uint (fee env)),
             transactionSignature = txSignature env,
             timestamp = Number (sint (clock env)),
             originalString = toString_utf8 (Buffer_from_base64 input)\<rparr>,
         \<sigma>\<lparr>ledger := ledger \<sigma> @
                [(generated env,
                  encode
                    \<lparr>original_string =
                       Buffer_from_utf8 (toString_utf8 (Buffer_from_base64 input)),
                     fingerprint =
                       Fingerprint (Buffer_from_utf8 (toString_utf8 (Buffer_from_base64 input))),
                     created_at = clock env, owner = payer env, cost = fee env\<rparr>)],
            rpc_calls := rpc_calls \<sigma> + 3\<rparr>)"
    using post_api_store_valid [of input _ \<sigma> env, OF _ refl] by simp
next
  assume "success (fst (post_api_store \<sigma> env (String input)))"
  then show "map_option originalString (data (fst (post_api_store \<sigma> env (String input))))
        = Some (toString_utf8 (Buffer_from_base64 input))"
    by (rule post_api_store_success_record)
next
  assume "success (fst (post_api_store \<sigma> env (String input)))"
  then show "map_of (ledger (snd (post_api_store \<sigma> env (String input)))) (generated env)
        = Some (encode
            \<lparr>original_string = Buffer_from_utf8 (toString_utf8 (Buffer_from_base64 input)),
             fingerprint =
               Fingerprint (Buffer_from_utf8 (toString_utf8 (Buffer_from_base64 input))),
             created_at = clock env, owner = payer env, cost = fee env\<rparr>)"
    by (rule post_api_store_success_record)
next
  assume a: "text \<noteq> [] \<and> 0x25 \<notin> set text"
  then have d: "decodeURIComponent text = Some text"
    using decodeURIComponent_plain [of "text"] by blast
  from a show "get_api_query \<tau> text =
          (if toString_hex (md5Hash text) \<notin> uploadedSignatures \<tau>
           then (ok (not_found text (toString_hex (md5Hash text))), \<tau>)
           else (case scan (ledger \<tau>) (toString_hex (md5Hash text)) of
                   Matched result \<Rightarrow> ok result
                 | NoMatch \<Rightarrow> ok (not_found text (toString_hex (md5Hash text)))
                 | Threw \<Rightarrow> failure 500 500,
                 \<tau>\<lparr>rpc_calls := rpc_calls \<tau> + 1\<rparr>))"
    using get_api_query_miss [OF _ d, of \<tau>] get_api_query_scan [OF _ d, of \<tau>] by simp
next
  assume "success (fst (get_api_query \<tau> text))"
  then show "\<exists>queried. decodeURIComponent text = Some queried
           \<and> map_option q_signature (data (fst (get_api_query \<tau> text)))
               = Some (Some (toString_hex (md5Hash queried)))
           \<and> (map_option exists (data (fst (get_api_query \<tau> text))) = Some False \<longrightarrow>
                map_option q_originalString (data (fst (get_api_query \<tau> text)))
                  = Some (Some queried))"
    by (rule get_api_query_success)
qed

theorem store_decodes_base64_query_does_not_witness:
  "base64_encode (Buffer_from_utf8 (js ''Hello Solana!'')) = js ''SGVsbG8gU29sYW5hIQ==''
   \<and> post_api_store fresh first_env (String (js ''SGVsbG8gU29sYW5hIQ=='')) =
        (ok \<lparr>signature = toString_hex (Fingerprint (Buffer_from_utf8 (js ''Hello Solana!''))),
             recordAddress = generated first_env,
             costLamports = 1500000,
             transactionSignature = js ''tx1'',
             timestamp = 1700000000,
             originalString = js ''Hello Solana!''\<rparr>,
         fresh\<lparr>ledger :=
                [(generated first_env,
                  encode \<lparr>original_string = Buffer_from_utf8 (js ''Hello Solana!''),
                          fingerprint = Fingerprint (Buffer_from_utf8 (js ''Hello Solana!'')),
                          created_at = 1700000000, owner = wallet, cost = 1500000\<rparr>)],
            rpc_calls := 3\<rparr>)
   \<and> post_api_store fresh first_env (String (js ''5Lit'')) =
        (ok \<lparr>signature = toString_hex (Fingerprint [0xE4, 0xB8, 0xAD]),
             recordAddress = generated first_env,
             costLamports = 1500000,
             transactionSignature = js ''tx1'',
             timestamp = 1700000000,
             originalString = [0x4E2D]\<rparr>,
         fresh\<lparr>ledger :=
                [(generated first_env,
                  encode \<lparr>original_string = [0xE4, 0xB8, 0xAD],
                          fingerprint = Fingerprint [0xE4, 0xB8, 0xAD],
                          created_at = 1700000000, owner = wallet, cost = 1500000\<rparr>)],
            rpc_calls := 3\<rparr>)
   \<and> get_api_query after_first (js ''SGVsbG8gU29sYW5hIQ=='')
       = (ok (not_found (js ''SGVsbG8gU29sYW5hIQ=='')
                (toString_hex (md5Hash (js ''SGVsbG8gU29sYW5hIQ=='')))), after_first)
   \<and> map_option q_originalString
        (data (fst (get_api_query after_first (js ''SGVsbG8gU29sYW5hIQ==''))))
       = Some (Some (js ''SGVsbG8gU29sYW5hIQ==''))"
proof -
  let ?t = "Buffer_from_utf8 (js ''Hello Solana!'')"
  let ?input = "js ''SGVsbG8gU29sYW5hIQ==''"
  have 1: "base64_encode ?t = ?input" by code_simp
  have 2: "list_all (\<lambda>b. b < 0x80) ?t" "?t \<noteq> []" "map ucast ?t = js ''Hello Solana!''"
    by code_simp+
  have 3: "length ?input \<le> 200" "?input \<noteq> []" "0x25 \<notin> set ?input"
    by (simp_all add: js_def)
  have 4: "length (js ''5Lit'') \<le> 200" by (simp add: js_def)
  have 5: "Buffer_from_utf8 (toString_utf8 (Buffer_from_base64 (js ''5Lit''))) = [0xE4, 0xB8, 0xAD]"
    "toString_utf8 (Buffer_from_base64 (js ''5Lit'')) = [0x4E2D]"
    by code_simp+
  have 6: "toString_hex (md5Hash ?input) \<notin> uploadedSignatures after_first"
    by (simp add: after_first_eq)
  have 7: "fee first_env = 1500000" "clock first_env = 1700000000" "txSignature first_env = js ''tx1''"
    "payer first_env = wallet" "length wallet = 32"
    by (simp_all add: first_env_def wallet_def)
  from store_decodes_base64_query_does_not [of ?t fresh first_env "js ''5Lit''" ?input after_first]
       1 2 3 4 5 6
  show ?thesis
    by (simp add: Number_samples 7 not_found_def) (simp add: fresh_def)
qed

end
